theory Spec2Isabelle
  imports Main "HOL-Library.Word"
begin

section \<open>The recurrent layer of mlpack (recurrent\_impl.hpp)\<close>

text \<open>
  A shallow embedding of \<^verbatim>\<open>src/mlpack/methods/ann/layer/recurrent_impl.hpp\<close>:
  the class \<^verbatim>\<open>Recurrent\<close> with its value constructor, \<^verbatim>\<open>Forward\<close>,
  \<^verbatim>\<open>Backward\<close>, \<^verbatim>\<open>Gradient\<close> and the loading half of \<^verbatim>\<open>serialize\<close>.
  The object is a record, every member function takes the object and returns the
  updated one, and the two places where the C++ can fail (a size mismatch in
  \<^verbatim>\<open>+=\<close>, an index outside the history vector) are branches of a sum type.
\<close>

subsection \<open>Matrices\<close>

text \<open>
  \<^verbatim>\<open>arma::Mat<eT>\<close> with the members the file uses: the dimensions, and the
  elements in memory order; \<^verbatim>\<open>n_elem\<close> is the number of stored elements. The
  element type is any type with an addition and a zero, so no law of arithmetic is
  assumed of \<^verbatim>\<open>eT\<close>.
\<close>

record 'a mat =
  n_rows :: nat
  n_cols :: nat
  mem :: "'a list"

definition n_elem :: "'a mat \<Rightarrow> nat" where
  "n_elem m = length (mem m)"

text \<open>A default-constructed matrix: 0 x 0, no elements.\<close>

definition empty_mat :: "'a mat" where
  "empty_mat = \<lparr>n_rows = 0, n_cols = 0, mem = []\<rparr>"

text \<open>\<^verbatim>\<open>m.is_empty()\<close>: \<^verbatim>\<open>n_elem == 0\<close>.\<close>

definition is_empty :: "'a mat \<Rightarrow> bool" where
  "is_empty m = (n_elem m = 0)"

text \<open>\<^verbatim>\<open>m.zeros()\<close>: every element becomes zero, the size stays.\<close>

definition zeros :: "'a::zero mat \<Rightarrow> 'a mat" where
  "zeros m = m\<lparr>mem := map (\<lambda>_. 0) (mem m)\<rparr>"

datatype error =
    IncompatibleDimensions  \<comment> \<open>the \<^verbatim>\<open>std::logic_error\<close> of \<^verbatim>\<open>+=\<close> on matrices of different size\<close>
  | IndexOutOfRange         \<comment> \<open>\<^verbatim>\<open>operator[]\<close> of \<^verbatim>\<open>std::vector\<close> outside the vector\<close>

text \<open>\<^verbatim>\<open>a += b\<close>: element-wise, after the check that both have the same size.\<close>

definition plus_assign :: "'a::plus mat \<Rightarrow> 'a mat \<Rightarrow> error + 'a mat" where
  "plus_assign a b =
     (if n_rows a = n_rows b \<and> n_cols a = n_cols b
      then Inr (a\<lparr>mem := map2 (+) (mem a) (mem b)\<rparr>)
      else Inl IncompatibleDimensions)"

text \<open>That every element of a matrix is zero.\<close>

definition all_zero :: "'a::zero mat \<Rightarrow> bool" where
  "all_zero m = list_all (\<lambda>x. x = 0) (mem m)"

subsection \<open>Layers and the module handles\<close>

text \<open>
  The seven \<^verbatim>\<open>LayerTypes\<close> members of the class: the four layers the caller gives
  and the three composite modules the constructor builds from them.
\<close>

datatype module =
    StartModule | InputModule | FeedbackModule | TransferModule
  | InitialModule | MergeModule | RecurrentModule

text \<open>
  What a handle points to. \<^verbatim>\<open>Null\<close> is a handle that no constructor has bound yet;
  \<^verbatim>\<open>Custom\<close> is a layer of the caller, its weights and gradients kept opaque in
  \<open>'p\<close>; \<^verbatim>\<open>Sequential\<close> and \<^verbatim>\<open>AddMerge\<close> carry their constructor arguments
  (\<open>None\<close> for the defaulted argument of \<^verbatim>\<open>Sequential<>()\<close>) and the list of
  layers added to them.
\<close>

datatype 'p body =
    Null
  | Custom 'p
  | Sequential "bool option" "module list"
  | AddMerge bool bool "module list"

record ('a, 'p) layer =
  outputParameter :: "'a mat"
  delta :: "'a mat"
  body :: "'p body"

type_synonym ('a, 'p) layers = "module \<Rightarrow> ('a, 'p) layer"

text \<open>
  Modelled from the spec: the visitors are defined in other headers of the library
  (\<^verbatim>\<open>../visitor/*.hpp\<close>), not in this file; the spec lists them as the
  capabilities Forward, Backward, Gradient, WeightSize, OutputParameter-read, Delta-read
  and Delete of the layer abstraction.
  The three that only read or bind a member are defined here; the others are
  parameters of the model (record \<open>visitors\<close> below), so every theorem holds for
  every layer implementation.
\<close>

definition outputParameterVisitor :: "module \<Rightarrow> ('a, 'p) layers \<Rightarrow> 'a mat" where
  "outputParameterVisitor h s = outputParameter (s h)"

definition deltaVisitor :: "module \<Rightarrow> ('a, 'p) layers \<Rightarrow> 'a mat" where
  "deltaVisitor h s = delta (s h)"

text \<open>
  A visitor that is handed a member of a layer as its result buffer writes that
  member: the value the visitor leaves in the buffer is stored in the layer.
\<close>

definition set_outputParameter :: "module \<Rightarrow> 'a mat \<Rightarrow> ('a, 'p) layers \<Rightarrow> ('a, 'p) layers" where
  "set_outputParameter h m s = s(h := (s h)\<lparr>outputParameter := m\<rparr>)"

definition set_delta :: "module \<Rightarrow> 'a mat \<Rightarrow> ('a, 'p) layers \<Rightarrow> ('a, 'p) layers" where
  "set_delta h m s = s(h := (s h)\<lparr>delta := m\<rparr>)"

text \<open>
  The visitors taken as parameters. A visitor gets the module it is applied to, the
  matrices it reads by value, the present content of its result buffer where it has
  one, and the layers; it returns what it leaves in the result buffer and the layers.
  \<^item> \<open>ForwardVisitor h input output\<close>
  \<^item> \<open>BackwardVisitor h input error delta\<close>
  \<^item> \<open>GradientVisitor h input delta\<close> (the result goes to the layer's own gradient)
  \<^item> \<open>GradientZeroVisitor h\<close>, \<open>WeightSizeVisitor h\<close>, \<open>DeleteVisitor h\<close>
\<close>

record ('a, 'p) visitors =
  ForwardVisitor :: "module \<Rightarrow> 'a mat \<Rightarrow> 'a mat \<Rightarrow> ('a, 'p) layers \<Rightarrow> 'a mat \<times> ('a, 'p) layers"
  BackwardVisitor :: "module \<Rightarrow> 'a mat \<Rightarrow> 'a mat \<Rightarrow> 'a mat \<Rightarrow> ('a, 'p) layers \<Rightarrow> 'a mat \<times> ('a, 'p) layers"
  GradientVisitor :: "module \<Rightarrow> 'a mat \<Rightarrow> 'a mat \<Rightarrow> ('a, 'p) layers \<Rightarrow> ('a, 'p) layers"
  GradientZeroVisitor :: "module \<Rightarrow> ('a, 'p) layers \<Rightarrow> ('a, 'p) layers"
  WeightSizeVisitor :: "module \<Rightarrow> ('a, 'p) layers \<Rightarrow> ('a, 'p) layers"
  DeleteVisitor :: "module \<Rightarrow> ('a, 'p) layers \<Rightarrow> ('a, 'p) layers"

text \<open>
  \<^verbatim>\<open>ForwardVisitor(x, outputParameter(h))\<close> applied to \<open>h\<close>: the layer is run on
  \<open>x\<close> with its own output parameter as the result buffer.
\<close>

definition ForwardVisitor_own ::
  "('a, 'p) visitors \<Rightarrow> module \<Rightarrow> 'a mat \<Rightarrow> ('a, 'p) layers \<Rightarrow> ('a, 'p) layers" where
  "ForwardVisitor_own V h x s =
     (let (y, s') = ForwardVisitor V h x (outputParameterVisitor h s) s
      in set_outputParameter h y s')"

text \<open>
  \<^verbatim>\<open>BackwardVisitor(x, err, delta(h))\<close> applied to \<open>h\<close>: the error is propagated
  through the layer with its own delta as the result buffer.
\<close>

definition BackwardVisitor_own ::
  "('a, 'p) visitors \<Rightarrow> module \<Rightarrow> 'a mat \<Rightarrow> 'a mat \<Rightarrow> ('a, 'p) layers \<Rightarrow> ('a, 'p) layers" where
  "BackwardVisitor_own V h x err s =
     (let (d, s') = BackwardVisitor V h x err (deltaVisitor h s) s
      in set_delta h d s')"

subsection \<open>The object\<close>

text \<open>\<^verbatim>\<open>size_t\<close> of a 64-bit platform: unsigned, arithmetic modulo \<open>2 ^ 64\<close>.\<close>

type_synonym size_t = "64 word"

record ('a, 'p) Recurrent =
  layers :: "('a, 'p) layers"
  network :: "module list"
  rho :: size_t
  forwardStep :: size_t
  backwardStep :: size_t
  gradientStep :: size_t
  deterministic :: bool
  ownsLayer :: bool
  recurrentError :: "'a mat"
  feedbackOutputParameter :: "'a mat list"

subsection \<open>Forward (lines 111 to 153)\<close>

text \<open>
  The module evaluation of lines 114 to 132: what is left in the caller's
  \<^verbatim>\<open>output\<close> buffer, and the layers.
\<close>

definition Forward_modules ::
  "('a, 'p) visitors \<Rightarrow> 'a mat \<Rightarrow> 'a mat \<Rightarrow> ('a, 'p) Recurrent \<Rightarrow> 'a mat \<times> ('a, 'p) layers" where
  "Forward_modules V input output st =
     (if forwardStep st = 0
      then ForwardVisitor V InitialModule input output (layers st)
      else
        let s1 = ForwardVisitor_own V InputModule input (layers st);
            s2 = ForwardVisitor_own V FeedbackModule
                   (outputParameterVisitor TransferModule s1) s1
        in ForwardVisitor V RecurrentModule input output s2)"

text \<open>
  \<^verbatim>\<open>Forward(input, output)\<close>: the caller's \<^verbatim>\<open>output\<close> buffer is passed in
  and returned with the object.
\<close>

definition Forward ::
  "('a::zero, 'p) visitors \<Rightarrow> 'a mat \<Rightarrow> 'a mat \<Rightarrow> ('a, 'p) Recurrent
     \<Rightarrow> 'a mat \<times> ('a, 'p) Recurrent" where
  "Forward V input output st =
     (let (output1, s) = Forward_modules V input output st;
          output2 = outputParameterVisitor TransferModule s;
          st1 = st\<lparr>layers := s,
                   feedbackOutputParameter :=
                     (if \<not> deterministic st
                      then feedbackOutputParameter st @ [output2]
                      else feedbackOutputParameter st)\<rparr>;
          st2 = st1\<lparr>forwardStep := forwardStep st1 + 1\<rparr>
      in (output2,
          if forwardStep st2 = rho st2
          then st2\<lparr>forwardStep := 0, backwardStep := 0,
                   recurrentError :=
                     (if \<not> is_empty (recurrentError st2)
                      then zeros (recurrentError st2)
                      else recurrentError st2)\<rparr>
          else st2))"

subsection \<open>Backward (lines 158 to 196)\<close>

text \<open>Lines 161 to 168: the incoming gradient is summed into the carried error.\<close>

definition accumulate :: "'a::plus mat \<Rightarrow> 'a mat \<Rightarrow> error + 'a mat" where
  "accumulate re gy = (if \<not> is_empty re then plus_assign re gy else Inr gy)"

text \<open>
  Lines 170 to 192: the propagation of the accumulated error \<open>re\<close>; what is left in
  the caller's \<^verbatim>\<open>g\<close> buffer, and the layers.
\<close>

definition Backward_modules ::
  "('a, 'p) visitors \<Rightarrow> 'a mat \<Rightarrow> 'a mat \<Rightarrow> ('a, 'p) Recurrent \<Rightarrow> 'a mat \<times> ('a, 'p) layers" where
  "Backward_modules V re g st =
     (let s = layers st in
      if backwardStep st < rho st - 1
      then
        let s1 = BackwardVisitor_own V RecurrentModule
                   (outputParameterVisitor RecurrentModule s) re s;
            (g1, s2) = BackwardVisitor V InputModule
                         (outputParameterVisitor InputModule s1)
                         (deltaVisitor RecurrentModule s1) g s1;
            s3 = BackwardVisitor_own V FeedbackModule
                   (outputParameterVisitor FeedbackModule s2)
                   (deltaVisitor RecurrentModule s2) s2
        in (g1, s3)
      else
        BackwardVisitor V InitialModule
          (outputParameterVisitor InitialModule s) re g s)"

text \<open>
  \<^verbatim>\<open>Backward(input, gy, g)\<close>; the parameter \<^verbatim>\<open>input\<close> is not used by the
  source. The caller's \<^verbatim>\<open>g\<close> buffer is passed in and returned.
\<close>

definition Backward ::
  "('a::plus, 'p) visitors \<Rightarrow> 'a mat \<Rightarrow> 'a mat \<Rightarrow> 'a mat \<Rightarrow> ('a, 'p) Recurrent
     \<Rightarrow> error + 'a mat \<times> ('a, 'p) Recurrent" where
  "Backward V input gy g st =
     (case accumulate (recurrentError st) gy of
        Inl e \<Rightarrow> Inl e
      | Inr re \<Rightarrow>
          let (g1, s) = Backward_modules V re g st
          in Inr (g1, st\<lparr>layers := s,
                          recurrentError := deltaVisitor FeedbackModule s,
                          backwardStep := backwardStep st + 1\<rparr>))"

subsection \<open>Gradient (lines 201 to 235)\<close>

text \<open>
  Line 215: the index \<^verbatim>\<open>feedbackOutputParameter.size() - 2 - gradientStep\<close>,
  computed in \<^verbatim>\<open>size_t\<close>.
\<close>

definition feedback_index :: "('a, 'p) Recurrent \<Rightarrow> size_t" where
  "feedback_index st =
     of_nat (length (feedbackOutputParameter st)) - 2 - gradientStep st"

text \<open>Lines 206 to 227: the layers after the gradient visitors.\<close>

definition Gradient_modules ::
  "('a, 'p) visitors \<Rightarrow> 'a mat \<Rightarrow> 'a mat \<Rightarrow> ('a, 'p) Recurrent \<Rightarrow> error + ('a, 'p) layers" where
  "Gradient_modules V input err st =
     (let s = layers st in
      if gradientStep st < rho st - 1
      then
        let s1 = GradientVisitor V RecurrentModule input err s;
            s2 = GradientVisitor V InputModule input (deltaVisitor MergeModule s1) s1;
            i = unat (feedback_index st)
        in if i < length (feedbackOutputParameter st)
           then Inr (GradientVisitor V FeedbackModule (feedbackOutputParameter st ! i)
                       (deltaVisitor MergeModule s2) s2)
           else Inl IndexOutOfRange
      else
        let s1 = GradientZeroVisitor V RecurrentModule s;
            s2 = GradientZeroVisitor V InputModule s1;
            s3 = GradientZeroVisitor V FeedbackModule s2
        in Inr (GradientVisitor V InitialModule input (deltaVisitor StartModule s3) s3))"

text \<open>
  \<^verbatim>\<open>Gradient(input, error, gradient)\<close>; the parameter \<^verbatim>\<open>gradient\<close> is not
  used by the source.
\<close>

definition Gradient ::
  "('a, 'p) visitors \<Rightarrow> 'a mat \<Rightarrow> 'a mat \<Rightarrow> 'a mat \<Rightarrow> ('a, 'p) Recurrent
     \<Rightarrow> error + ('a, 'p) Recurrent" where
  "Gradient V input err gradient st =
     (case Gradient_modules V input err st of
        Inl e \<Rightarrow> Inl e
      | Inr s \<Rightarrow>
          let st1 = st\<lparr>layers := s, gradientStep := gradientStep st + 1\<rparr>
          in Inr (if gradientStep st1 = rho st1
                  then st1\<lparr>gradientStep := 0, feedbackOutputParameter := []\<rparr>
                  else st1))"

subsection \<open>The value constructor (lines 61 to 106) and loading (lines 240 to 293)\<close>

text \<open>
  Modelled from the spec: \<^verbatim>\<open>Sequential\<close>, \<^verbatim>\<open>AddMerge\<close> and
  \<^verbatim>\<open>AddVisitor\<close> are defined in other headers of the library, not in this
  file. A container is an ordered chain
  (\<^verbatim>\<open>Sequential\<close>) or a sum (\<^verbatim>\<open>AddMerge\<close>) of the layers added to it, in the
  order they were added; a new container has no layers and empty buffers, and adding to
  a layer that is not a container does nothing.
\<close>

definition new_layer :: "module \<Rightarrow> 'p body \<Rightarrow> ('a, 'p) layers \<Rightarrow> ('a, 'p) layers" where
  "new_layer h b s = s(h := \<lparr>outputParameter = empty_mat, delta = empty_mat, body = b\<rparr>)"

definition AddVisitor :: "module \<Rightarrow> module \<Rightarrow> ('a, 'p) layers \<Rightarrow> ('a, 'p) layers" where
  "AddVisitor child h s =
     (case body (s h) of
        Sequential m cs \<Rightarrow> s(h := (s h)\<lparr>body := Sequential m (cs @ [child])\<rparr>)
      | AddMerge m r cs \<Rightarrow> s(h := (s h)\<lparr>body := AddMerge m r (cs @ [child])\<rparr>)
      | _ \<Rightarrow> s)"

text \<open>
  The memory before a constructor has run: no handle is bound.
\<close>

definition unbound :: "('a, 'p) layers" where
  "unbound = (\<lambda>_. \<lparr>outputParameter = empty_mat, delta = empty_mat, body = Null\<rparr>)"

text \<open>
  \<^verbatim>\<open>Recurrent(start, input, feedback, transfer, rho)\<close>: the initialiser list
  (lines 67 to 76) copies the four layers and sets the counters; the body (lines 78
  to 105) builds the three containers and the network list.
\<close>

definition Recurrent_ctor ::
  "('a, 'p) visitors \<Rightarrow> ('a, 'p) layer \<Rightarrow> ('a, 'p) layer \<Rightarrow> ('a, 'p) layer \<Rightarrow> ('a, 'p) layer
     \<Rightarrow> size_t \<Rightarrow> ('a, 'p) Recurrent" where
  "Recurrent_ctor V start input feedback transfer r =
     (let s0 = unbound(StartModule := start, InputModule := input,
                       FeedbackModule := feedback, TransferModule := transfer);
          s1 = new_layer InitialModule (Sequential None []) s0;
          s2 = new_layer MergeModule (AddMerge False False []) s1;
          s3 = new_layer RecurrentModule (Sequential (Some False) []) s2;
          s4 = AddVisitor InputModule InitialModule s3;
          s5 = AddVisitor StartModule InitialModule s4;
          s6 = AddVisitor TransferModule InitialModule s5;
          s7 = WeightSizeVisitor V StartModule s6;
          s8 = WeightSizeVisitor V InputModule s7;
          s9 = WeightSizeVisitor V FeedbackModule s8;
          s10 = WeightSizeVisitor V TransferModule s9;
          s11 = AddVisitor InputModule MergeModule s10;
          s12 = AddVisitor FeedbackModule MergeModule s11;
          s13 = AddVisitor MergeModule RecurrentModule s12;
          s14 = AddVisitor TransferModule RecurrentModule s13
      in \<lparr>layers = s14,
          network = [] @ [InitialModule] @ [MergeModule] @ [FeedbackModule] @ [RecurrentModule],
          rho = r, forwardStep = 0, backwardStep = 0, gradientStep = 0,
          deterministic = False, ownsLayer = True,
          recurrentError = empty_mat, feedbackOutputParameter = []\<rparr>)"

text \<open>
  What an archive holds (lines 253 to 258): the four layers, \<^verbatim>\<open>rho\<close> and
  \<^verbatim>\<open>ownsLayer\<close>.
\<close>

record ('a, 'p) archive =
  ar_startModule :: "('a, 'p) layer"
  ar_inputModule :: "('a, 'p) layer"
  ar_feedbackModule :: "('a, 'p) layer"
  ar_transferModule :: "('a, 'p) layer"
  ar_rho :: size_t
  ar_ownsLayer :: bool

text \<open>
  \<^verbatim>\<open>serialize\<close> with a loading archive. Lines 247 to 250 release the old modules
  and clear the list; lines 253 to 258 bind the four handles to the layers read and
  read the two scalars; lines 263 to 291 build the containers. The counters, the mode
  flag and the two buffers are not touched.
\<close>

definition serialize_load ::
  "('a, 'p) visitors \<Rightarrow> ('a, 'p) archive \<Rightarrow> ('a, 'p) Recurrent \<Rightarrow> ('a, 'p) Recurrent" where
  "serialize_load V ar st =
     (let d1 = DeleteVisitor V RecurrentModule (layers st);
          d2 = DeleteVisitor V InitialModule d1;
          d3 = DeleteVisitor V StartModule d2;
          net0 = [];
          l1 = d3(StartModule := ar_startModule ar);
          l2 = l1(InputModule := ar_inputModule ar);
          l3 = l2(FeedbackModule := ar_feedbackModule ar);
          l4 = l3(TransferModule := ar_transferModule ar);
          s1 = new_layer InitialModule (Sequential None []) l4;
          s2 = new_layer MergeModule (AddMerge False False []) s1;
          s3 = new_layer RecurrentModule (Sequential (Some False) []) s2;
          s4 = AddVisitor InputModule InitialModule s3;
          s5 = AddVisitor StartModule InitialModule s4;
          s6 = AddVisitor TransferModule InitialModule s5;
          s7 = WeightSizeVisitor V StartModule s6;
          s8 = WeightSizeVisitor V InputModule s7;
          s9 = WeightSizeVisitor V FeedbackModule s8;
          s10 = WeightSizeVisitor V TransferModule s9;
          s11 = AddVisitor InputModule MergeModule s10;
          s12 = AddVisitor FeedbackModule MergeModule s11;
          s13 = AddVisitor MergeModule RecurrentModule s12;
          s14 = AddVisitor TransferModule RecurrentModule s13
      in st\<lparr>layers := s14,
            network := net0 @ [InitialModule] @ [MergeModule] @ [FeedbackModule] @ [RecurrentModule],
            rho := ar_rho ar, ownsLayer := ar_ownsLayer ar\<rparr>)"

subsection \<open>Sequences of calls\<close>

datatype 'a call =
    ForwardCall "'a mat" "'a mat"
  | BackwardCall "'a mat" "'a mat" "'a mat"
  | GradientCall "'a mat" "'a mat" "'a mat"

fun step :: "('a::{zero,plus}, 'p) visitors \<Rightarrow> 'a call \<Rightarrow> ('a, 'p) Recurrent
               \<Rightarrow> error + ('a, 'p) Recurrent" where
  "step V (ForwardCall input output) st = Inr (snd (Forward V input output st))"
| "step V (BackwardCall input gy g) st =
     (case Backward V input gy g st of Inl e \<Rightarrow> Inl e | Inr (_, st') \<Rightarrow> Inr st')"
| "step V (GradientCall input err gradient) st = Gradient V input err gradient st"

fun run :: "('a::{zero,plus}, 'p) visitors \<Rightarrow> ('a, 'p) Recurrent \<Rightarrow> 'a call list
              \<Rightarrow> error + ('a, 'p) Recurrent" where
  "run V st [] = Inr st"
| "run V st (c # cs) = (case step V c st of Inl e \<Rightarrow> Inl e | Inr st' \<Rightarrow> run V st' cs)"

text \<open>
  The documented call pattern for a window of length \<open>R\<close>: \<open>R\<close> calls of Forward,
  then \<open>R\<close> calls of Backward, then \<open>R\<close> calls of Gradient. A position \<open>(f, b, g)\<close>
  counts the calls of each kind made in the open window; the \<open>R\<close>-th Gradient call
  closes the window. \<open>follows R p cs\<close> is the position after the calls \<open>cs\<close> from
  position \<open>p\<close>, or \<open>None\<close> when a call is out of the pattern.
\<close>

fun advance :: "nat \<Rightarrow> nat \<times> nat \<times> nat \<Rightarrow> 'a call \<Rightarrow> (nat \<times> nat \<times> nat) option" where
  "advance R (f, b, g) (ForwardCall _ _) =
     (if f < R \<and> b = 0 \<and> g = 0 then Some (f + 1, 0, 0) else None)"
| "advance R (f, b, g) (BackwardCall _ _ _) =
     (if f = R \<and> b < R \<and> g = 0 then Some (f, b + 1, 0) else None)"
| "advance R (f, b, g) (GradientCall _ _ _) =
     (if f = R \<and> b = R \<and> g < R
      then (if g + 1 = R then Some (0, 0, 0) else Some (f, b, g + 1))
      else None)"

fun follows :: "nat \<Rightarrow> nat \<times> nat \<times> nat \<Rightarrow> 'a call list \<Rightarrow> (nat \<times> nat \<times> nat) option" where
  "follows R p [] = Some p"
| "follows R p (c # cs) = (case advance R p c of None \<Rightarrow> None | Some p' \<Rightarrow> follows R p' cs)"

text \<open>A run of Forward calls, each with its input and the caller's output buffer.\<close>

fun Forward_calls :: "('a::zero, 'p) visitors \<Rightarrow> ('a, 'p) Recurrent \<Rightarrow> ('a mat \<times> 'a mat) list
                        \<Rightarrow> ('a, 'p) Recurrent" where
  "Forward_calls V st [] = st"
| "Forward_calls V st ((input, output) # xs) =
     Forward_calls V (snd (Forward V input output st)) xs"

subsection \<open>A small network to run the model on\<close>

text \<open>
  Integer matrices and layers that add a constant in Forward (10 for Input, 100 for
  Start, 1000 for Feedback, 1 for Transfer) and hand the error on unchanged in Backward.
  A layer of the caller records, in its opaque part, the pairs (input, delta) that its
  Gradient was called with; zeroing the gradient empties the record. The containers
  follow the wiring of the constructor.
\<close>

definition scalar :: "int \<Rightarrow> int mat" where
  "scalar x = \<lparr>n_rows = 1, n_cols = 1, mem = [x]\<rparr>"

definition toy_add :: "int \<Rightarrow> int mat \<Rightarrow> int mat" where
  "toy_add c m = m\<lparr>mem := map (\<lambda>x. x + c) (mem m)\<rparr>"

definition toy_sum :: "int mat \<Rightarrow> int mat \<Rightarrow> int mat" where
  "toy_sum a b = (case plus_assign a b of Inr m \<Rightarrow> m | Inl _ \<Rightarrow> a)"

type_synonym toy_log = "(int mat \<times> int mat) list"

definition toy_bias :: "module \<Rightarrow> int" where
  "toy_bias h =
     (case h of StartModule \<Rightarrow> 100 | InputModule \<Rightarrow> 10 | FeedbackModule \<Rightarrow> 1000 | _ \<Rightarrow> 1)"

definition toy_Forward ::
  "module \<Rightarrow> int mat \<Rightarrow> int mat \<Rightarrow> (int, toy_log) layers \<Rightarrow> int mat \<times> (int, toy_log) layers" where
  "toy_Forward h x out s =
     (case h of
        InitialModule \<Rightarrow>
          let a = toy_add (toy_bias InputModule) x;
              b = toy_add (toy_bias StartModule) a;
              c = toy_add (toy_bias TransferModule) b
          in (c, set_outputParameter TransferModule c
                   (set_outputParameter StartModule b (set_outputParameter InputModule a s)))
      | RecurrentModule \<Rightarrow>
          let m = toy_sum (outputParameterVisitor InputModule s)
                    (outputParameterVisitor FeedbackModule s);
              c = toy_add (toy_bias TransferModule) m
          in (c, set_outputParameter TransferModule c (set_outputParameter MergeModule m s))
      | MergeModule \<Rightarrow>
          (toy_sum (outputParameterVisitor InputModule s)
             (outputParameterVisitor FeedbackModule s), s)
      | _ \<Rightarrow> (toy_add (toy_bias h) x, s))"

definition toy_Backward ::
  "module \<Rightarrow> int mat \<Rightarrow> int mat \<Rightarrow> int mat \<Rightarrow> (int, toy_log) layers
     \<Rightarrow> int mat \<times> (int, toy_log) layers" where
  "toy_Backward h x err d s =
     (case h of
        InitialModule \<Rightarrow>
          (err, set_delta InputModule err
                  (set_delta StartModule err (set_delta TransferModule err s)))
      | RecurrentModule \<Rightarrow>
          (err, set_delta MergeModule err (set_delta TransferModule err s))
      | _ \<Rightarrow> (err, s))"

definition toy_Gradient ::
  "module \<Rightarrow> int mat \<Rightarrow> int mat \<Rightarrow> (int, toy_log) layers \<Rightarrow> (int, toy_log) layers" where
  "toy_Gradient h x d s =
     (case body (s h) of
        Custom log \<Rightarrow> s(h := (s h)\<lparr>body := Custom (log @ [(x, d)])\<rparr>)
      | _ \<Rightarrow> s)"

definition toy_GradientZero :: "module \<Rightarrow> (int, toy_log) layers \<Rightarrow> (int, toy_log) layers" where
  "toy_GradientZero h s =
     (case body (s h) of
        Custom log \<Rightarrow> s(h := (s h)\<lparr>body := Custom []\<rparr>)
      | _ \<Rightarrow> s)"

definition toy :: "(int, toy_log) visitors" where
  "toy = \<lparr>ForwardVisitor = toy_Forward, BackwardVisitor = toy_Backward,
          GradientVisitor = toy_Gradient, GradientZeroVisitor = toy_GradientZero,
          WeightSizeVisitor = (\<lambda>h s. s),
          DeleteVisitor = (\<lambda>h s. s(h := unbound h))\<rparr>"

definition toy_layer :: "(int, toy_log) layer" where
  "toy_layer = \<lparr>outputParameter = empty_mat, delta = empty_mat, body = Custom []\<rparr>"

definition toy_Recurrent :: "size_t \<Rightarrow> (int, toy_log) Recurrent" where
  "toy_Recurrent r = Recurrent_ctor toy toy_layer toy_layer toy_layer toy_layer r"

definition toy_inputs :: "(int mat \<times> int mat) list" where
  "toy_inputs = [(scalar 1, empty_mat), (scalar 2, empty_mat), (scalar 3, empty_mat)]"

definition toy_after1 :: "(int, toy_log) Recurrent" where
  "toy_after1 = snd (Forward toy (scalar 1) empty_mat (toy_Recurrent 3))"

definition toy_calls :: "int call list" where
  "toy_calls =
     [ForwardCall (scalar 1) empty_mat, ForwardCall (scalar 2) empty_mat,
      ForwardCall (scalar 3) empty_mat,
      BackwardCall (scalar 3) (scalar 5) empty_mat, BackwardCall (scalar 2) (scalar 6) empty_mat,
      BackwardCall (scalar 1) (scalar 7) empty_mat,
      GradientCall (scalar 3) (scalar 5) empty_mat, GradientCall (scalar 2) (scalar 6) empty_mat,
      GradientCall (scalar 1) (scalar 7) empty_mat]"

definition toy_run :: "nat \<Rightarrow> (int, toy_log) Recurrent" where
  "toy_run k = (case run toy (toy_Recurrent 3) (take k toy_calls) of
                  Inr st \<Rightarrow> st | Inl _ \<Rightarrow> toy_Recurrent 3)"

definition toy_b1 :: "int mat \<times> (int, toy_log) Recurrent" where
  "toy_b1 = projr (Backward toy (scalar 3) (scalar 5) empty_mat (toy_run 3))"

definition toy_b2 :: "int mat \<times> (int, toy_log) Recurrent" where
  "toy_b2 = projr (Backward toy (scalar 2) (scalar 6) empty_mat (snd toy_b1))"

definition toy_g1 :: "(int, toy_log) Recurrent" where
  "toy_g1 = projr (Gradient toy (scalar 3) (scalar 5) empty_mat (toy_run 6))"

definition toy_g3 :: "(int, toy_log) Recurrent" where
  "toy_g3 = projr (Gradient toy (scalar 1) (scalar 7) empty_mat (toy_run 8))"

definition toy_archive :: "(int, toy_log) archive" where
  "toy_archive = \<lparr>ar_startModule = toy_layer, ar_inputModule = toy_layer,
                   ar_feedbackModule = toy_layer, ar_transferModule = toy_layer,
                   ar_rho = 3, ar_ownsLayer = True\<rparr>"

text \<open>
  What holds at position \<open>(f, b, g)\<close> of the pattern, for an object in training mode
  with \<open>rho = R > 0\<close>: the counters in terms of the calls made, and one saved output
  for each Forward call of the open window. \<open>backwardStep\<close> is only reset by the
  \<open>R\<close>-th Forward call, so during the Forward calls of a window it is 0 or still \<open>R\<close>.
\<close>

definition pattern_inv :: "nat \<Rightarrow> nat \<times> nat \<times> nat \<Rightarrow> ('a, 'p) Recurrent \<Rightarrow> bool" where
  "pattern_inv R p st =
     (case p of (f, b, g) \<Rightarrow>
        0 < R \<and> unat (rho st) = R \<and> f \<le> R \<and> b \<le> R \<and> g < R \<and>
        unat (forwardStep st) = (if f = R then 0 else f) \<and>
        unat (backwardStep st) \<le> R \<and> (f = R \<longrightarrow> unat (backwardStep st) = b) \<and>
        unat (gradientStep st) = g \<and>
        \<not> deterministic st \<and> length (feedbackOutputParameter st) = f)"

definition toy_inference :: "(int, toy_log) Recurrent" where
  "toy_inference =
     projr (run toy ((toy_Recurrent 3)\<lparr>deterministic := True\<rparr>) (take 3 toy_calls))"

text \<open>
  What the Backward visitor of Feedback leaves in Feedback's delta when lines 172 to
  185 run on the accumulated error \<open>re\<close>.
\<close>

definition Feedback_backward_delta ::
  "('a, 'p) visitors \<Rightarrow> 'a mat \<Rightarrow> 'a mat \<Rightarrow> ('a, 'p) Recurrent \<Rightarrow> 'a mat" where
  "Feedback_backward_delta V re g st =
     (let s1 = BackwardVisitor_own V RecurrentModule
                 (outputParameterVisitor RecurrentModule (layers st)) re (layers st);
          s2 = snd (BackwardVisitor V InputModule
                      (outputParameterVisitor InputModule s1)
                      (deltaVisitor RecurrentModule s1) g s1)
      in fst (BackwardVisitor V FeedbackModule
                (outputParameterVisitor FeedbackModule s2)
                (deltaVisitor RecurrentModule s2)
                (deltaVisitor FeedbackModule s2) s2))"

definition toy_b3 :: "int mat \<times> (int, toy_log) Recurrent" where
  "toy_b3 = projr (Backward toy (scalar 1) (scalar 7) empty_mat (toy_run 5))"

section \<open>Properties\<close>

subsection \<open>Counters in \<^verbatim>\<open>size_t\<close>\<close>

lemma unat_inc: "x < (y::size_t) \<Longrightarrow> unat (x + 1) = Suc (unat x)"
  by (metis ab_left_minus add.commute add_left_cancel leD unatSuc word_order.extremum)

lemma inc_neq: "unat x + 1 < unat (y::size_t) \<Longrightarrow> x + 1 \<noteq> y"
  by (metis (no_types, lifting) add.commute add_leD2 less_le_not_le
    unat_plus_simple unsigned_1 word_less_eq_iff_unsigned)

lemma inc_eq: "unat x + 1 = unat (y::size_t) \<Longrightarrow> x + 1 = y"
  by (simp add: word_arith_nat_add)

subsection \<open>Forward\<close>

text \<open>
  C1. Forward evaluates the Initial module on the input when \<open>forwardStep\<close> is 0;
  otherwise it runs Input on the input, Feedback on the output that Transfer holds
  from the step before, and then the Recurrent-body module. No other visitor touches
  the layers, and in both branches the caller's output buffer ends as the output
  parameter of Transfer.
\<close>

theorem Forward_dispatch:
  "layers (snd (Forward V input output st)) =
     (if forwardStep st = 0
      then snd (ForwardVisitor V InitialModule input output (layers st))
      else snd (ForwardVisitor V RecurrentModule input output
                  (ForwardVisitor_own V FeedbackModule
                     (outputParameterVisitor TransferModule
                        (ForwardVisitor_own V InputModule input (layers st)))
                     (ForwardVisitor_own V InputModule input (layers st))))) \<and>
   fst (Forward V input output st) =
     outputParameterVisitor TransferModule (layers (snd (Forward V input output st)))"
  by (simp add: Forward_def Forward_modules_def Let_def split_def)

lemma all_zero_zeros: "all_zero (zeros m)"
  by (simp add: all_zero_def zeros_def list_all_iff)

lemma all_zero_is_empty: "is_empty m \<Longrightarrow> all_zero m"
  by (simp add: all_zero_def is_empty_def n_elem_def)

lemma Forward_rho: "rho (snd (Forward V input output st)) = rho st"
  by (simp add: Forward_def Let_def split_def)

lemma Forward_no_reset:
  assumes "forwardStep st + 1 \<noteq> rho st"
  shows "forwardStep (snd (Forward V input output st)) = forwardStep st + 1"
    and "backwardStep (snd (Forward V input output st)) = backwardStep st"
    and "recurrentError (snd (Forward V input output st)) = recurrentError st"
  using assms by (simp_all add: Forward_def Let_def split_def)

lemma Forward_reset:
  assumes "forwardStep st + 1 = rho st"
  shows "forwardStep (snd (Forward V input output st)) = 0"
    and "backwardStep (snd (Forward V input output st)) = 0"
    and "all_zero (recurrentError (snd (Forward V input output st)))"
  using assms by (simp_all add: Forward_def Let_def split_def all_zero_zeros all_zero_is_empty)

lemma Forward_calls_snoc:
  "Forward_calls V st (xs @ [x]) = snd (Forward V (fst x) (snd x) (Forward_calls V st xs))"
proof (induction xs arbitrary: st)
  case Nil
  show ?case by (cases x) simp
next
  case (Cons a xs)
  then show ?case by (cases a) simp
qed

text \<open>While the window is not full, each call only counts.\<close>

lemma Forward_calls_below:
  "unat (forwardStep st) + length xs < unat (rho st) \<Longrightarrow>
     unat (forwardStep (Forward_calls V st xs)) = unat (forwardStep st) + length xs \<and>
     backwardStep (Forward_calls V st xs) = backwardStep st \<and>
     recurrentError (Forward_calls V st xs) = recurrentError st \<and>
     rho (Forward_calls V st xs) = rho st"
proof (induction xs arbitrary: st)
  case Nil
  then show ?case by simp
next
  case (Cons x xs)
  obtain i o' where x: "x = (i, o')" by (cases x)
  let ?st = "snd (Forward V i o' st)"
  from Cons.prems have lt: "unat (forwardStep st) + 1 < unat (rho st)" by simp
  then have ne: "forwardStep st + 1 \<noteq> rho st" by (rule inc_neq)
  from lt have "forwardStep st < rho st" by (simp add: word_less_nat_alt)
  then have u: "unat (forwardStep st + 1) = Suc (unat (forwardStep st))" by (rule unat_inc)
  have fs: "unat (forwardStep ?st) = Suc (unat (forwardStep st))"
    using Forward_no_reset(1)[OF ne] u by simp
  have "unat (forwardStep ?st) + length xs < unat (rho ?st)"
    using Cons.prems fs by (simp add: Forward_rho)
  from Cons.IH[OF this] show ?case
    using fs Forward_no_reset(2,3)[OF ne] by (simp add: x Forward_rho)
qed

text \<open>
  C2. With \<open>rho = R > 0\<close> and \<open>forwardStep = 0\<close>, after \<open>R\<close> calls of Forward the
  counters \<open>forwardStep\<close> and \<open>backwardStep\<close> are 0 and every element of
  \<open>recurrentError\<close> is zero. The reset fires at the \<open>R\<close>-th call and at no earlier
  one: after \<open>k < R\<close> calls \<open>forwardStep\<close> is \<open>k\<close>, and \<open>backwardStep\<close> and
  \<open>recurrentError\<close> are what they were.
\<close>

theorem Forward_window_reset:
  assumes "forwardStep st = 0" and "rho st \<noteq> 0" and "length xs = unat (rho st)"
  shows "forwardStep (Forward_calls V st xs) = 0 \<and>
         backwardStep (Forward_calls V st xs) = 0 \<and>
         all_zero (recurrentError (Forward_calls V st xs)) \<and>
         (\<forall>k < length xs.
            unat (forwardStep (Forward_calls V st (take k xs))) = k \<and>
            backwardStep (Forward_calls V st (take k xs)) = backwardStep st \<and>
            recurrentError (Forward_calls V st (take k xs)) = recurrentError st)"
proof -
  from assms(2) have pos: "0 < unat (rho st)" by (simp add: unat_gt_0)
  with assms(3) have "xs \<noteq> []" by auto
  then obtain ys y where xs: "xs = ys @ [y]" by (metis rev_exhaust)
  have below: "unat (forwardStep st) + length zs < unat (rho st) \<Longrightarrow>
      unat (forwardStep (Forward_calls V st zs)) = length zs \<and>
      backwardStep (Forward_calls V st zs) = backwardStep st \<and>
      recurrentError (Forward_calls V st zs) = recurrentError st \<and>
      rho (Forward_calls V st zs) = rho st" for zs
    using Forward_calls_below[of st zs V] assms(1) by simp
  have "unat (forwardStep st) + length ys < unat (rho st)"
    using assms(1,3) xs by simp
  from below[OF this] have ys: "unat (forwardStep (Forward_calls V st ys)) = length ys"
    and rho_ys: "rho (Forward_calls V st ys) = rho st" by simp_all
  have "unat (forwardStep (Forward_calls V st ys)) + 1 = unat (rho (Forward_calls V st ys))"
    using ys rho_ys assms(3) xs by simp
  then have "forwardStep (Forward_calls V st ys) + 1 = rho (Forward_calls V st ys)"
    by (rule inc_eq)
  from Forward_reset[OF this]
  have last: "forwardStep (Forward_calls V st xs) = 0 \<and>
         backwardStep (Forward_calls V st xs) = 0 \<and>
         all_zero (recurrentError (Forward_calls V st xs))"
    by (simp add: xs Forward_calls_snoc)
  have "unat (forwardStep (Forward_calls V st (take k xs))) = k \<and>
        backwardStep (Forward_calls V st (take k xs)) = backwardStep st \<and>
        recurrentError (Forward_calls V st (take k xs)) = recurrentError st"
    if "k < length xs" for k
  proof -
    have "unat (forwardStep st) + length (take k xs) < unat (rho st)"
      using that assms(1,3) by simp
    from below[OF this] that show ?thesis by simp
  qed
  with last show ?thesis by blast
qed

theorem Forward_dispatch_witness:
  "forwardStep (toy_Recurrent 3) = 0 \<and>
   layers (snd (Forward toy (scalar 1) empty_mat (toy_Recurrent 3))) =
     snd (ForwardVisitor toy InitialModule (scalar 1) empty_mat (layers (toy_Recurrent 3))) \<and>
   fst (Forward toy (scalar 1) empty_mat (toy_Recurrent 3)) = scalar 112 \<and>
   forwardStep toy_after1 \<noteq> 0 \<and>
   layers (snd (Forward toy (scalar 2) empty_mat toy_after1)) =
     snd (ForwardVisitor toy RecurrentModule (scalar 2) empty_mat
            (ForwardVisitor_own toy FeedbackModule
               (outputParameterVisitor TransferModule
                  (ForwardVisitor_own toy InputModule (scalar 2) (layers toy_after1)))
               (ForwardVisitor_own toy InputModule (scalar 2) (layers toy_after1)))) \<and>
   fst (Forward toy (scalar 2) empty_mat toy_after1) = scalar 1125"
proof -
  have a: "forwardStep (toy_Recurrent 3) = 0" by code_simp
  have b: "forwardStep toy_after1 \<noteq> 0" by code_simp
  have c: "fst (Forward toy (scalar 1) empty_mat (toy_Recurrent 3)) = scalar 112" by code_simp
  have d: "fst (Forward toy (scalar 2) empty_mat toy_after1) = scalar 1125" by code_simp
  from Forward_dispatch[of toy "scalar 1" empty_mat "toy_Recurrent 3"] a
  have e: "layers (snd (Forward toy (scalar 1) empty_mat (toy_Recurrent 3))) =
     snd (ForwardVisitor toy InitialModule (scalar 1) empty_mat (layers (toy_Recurrent 3)))"
    by simp
  from Forward_dispatch[of toy "scalar 2" empty_mat toy_after1] b
  have f: "layers (snd (Forward toy (scalar 2) empty_mat toy_after1)) =
     snd (ForwardVisitor toy RecurrentModule (scalar 2) empty_mat
            (ForwardVisitor_own toy FeedbackModule
               (outputParameterVisitor TransferModule
                  (ForwardVisitor_own toy InputModule (scalar 2) (layers toy_after1)))
               (ForwardVisitor_own toy InputModule (scalar 2) (layers toy_after1))))"
    by simp
  from a b c d e f show ?thesis by blast
qed

theorem Forward_window_reset_witness:
  "forwardStep (toy_Recurrent 3) = 0 \<and> rho (toy_Recurrent 3) \<noteq> 0 \<and>
   length toy_inputs = unat (rho (toy_Recurrent 3)) \<and>
   forwardStep (Forward_calls toy (toy_Recurrent 3) toy_inputs) = 0 \<and>
   backwardStep (Forward_calls toy (toy_Recurrent 3) toy_inputs) = 0 \<and>
   all_zero (recurrentError (Forward_calls toy (toy_Recurrent 3) toy_inputs)) \<and>
   2 < length toy_inputs \<and>
   unat (forwardStep (Forward_calls toy (toy_Recurrent 3) (take 2 toy_inputs))) = 2"
proof -
  have h1: "forwardStep (toy_Recurrent 3) = 0" by code_simp
  have h2: "rho (toy_Recurrent 3) \<noteq> 0" by code_simp
  have h3: "length toy_inputs = unat (rho (toy_Recurrent 3))" by code_simp
  have h4: "2 < length toy_inputs" by code_simp
  from Forward_window_reset[OF h1 h2 h3, of toy] h1 h2 h3 h4 show ?thesis by blast
qed

subsection \<open>Backward\<close>

text \<open>
  C4. A call of Backward that gets past the accumulation, with \<open>re\<close> the accumulated
  error: when \<open>backwardStep < rho - 1\<close> the error goes backward through the
  Recurrent-body module into that module's delta; this delta goes through Input, which
  leaves the caller's \<open>g\<close>, and, again this delta, through Feedback into Feedback's
  delta. Otherwise the error goes backward through the Initial module, which leaves
  \<open>g\<close>. The layers after the call are those these visitors leave.
\<close>

theorem Backward_dispatch:
  assumes "accumulate (recurrentError st) gy = Inr re"
  shows "\<exists>g' st'. Backward V input gy g st = Inr (g', st') \<and>
           (g', layers st') =
             (if backwardStep st < rho st - 1
              then
                let s1 = BackwardVisitor_own V RecurrentModule
                           (outputParameterVisitor RecurrentModule (layers st)) re (layers st);
                    (g1, s2) = BackwardVisitor V InputModule
                                 (outputParameterVisitor InputModule s1)
                                 (deltaVisitor RecurrentModule s1) g s1
                in (g1, BackwardVisitor_own V FeedbackModule
                          (outputParameterVisitor FeedbackModule s2)
                          (deltaVisitor RecurrentModule s2) s2)
              else BackwardVisitor V InitialModule
                     (outputParameterVisitor InitialModule (layers st)) re g (layers st))"
  using assms by (simp add: Backward_def Backward_modules_def Let_def split_def)

theorem Backward_dispatch_witness:
  "accumulate (recurrentError (toy_run 3)) (scalar 5) = Inr (scalar 5) \<and>
   backwardStep (toy_run 3) < rho (toy_run 3) - 1 \<and>
   (\<exists>g' st'. Backward toy (scalar 3) (scalar 5) empty_mat (toy_run 3) = Inr (g', st') \<and>
      (g', layers st') =
        (let s1 = BackwardVisitor_own toy RecurrentModule
                    (outputParameterVisitor RecurrentModule (layers (toy_run 3)))
                    (scalar 5) (layers (toy_run 3));
             (g1, s2) = BackwardVisitor toy InputModule
                          (outputParameterVisitor InputModule s1)
                          (deltaVisitor RecurrentModule s1) empty_mat s1
         in (g1, BackwardVisitor_own toy FeedbackModule
                   (outputParameterVisitor FeedbackModule s2)
                   (deltaVisitor RecurrentModule s2) s2))) \<and>
   accumulate (recurrentError (toy_run 5)) (scalar 7) = Inr (scalar 18) \<and>
   \<not> backwardStep (toy_run 5) < rho (toy_run 5) - 1 \<and>
   (\<exists>g' st'. Backward toy (scalar 1) (scalar 7) empty_mat (toy_run 5) = Inr (g', st') \<and>
      (g', layers st') =
        BackwardVisitor toy InitialModule
          (outputParameterVisitor InitialModule (layers (toy_run 5))) (scalar 18) empty_mat
          (layers (toy_run 5)))"
proof -
  have a: "accumulate (recurrentError (toy_run 3)) (scalar 5) = Inr (scalar 5)" by code_simp
  have b: "backwardStep (toy_run 3) < rho (toy_run 3) - 1" by code_simp
  have c: "accumulate (recurrentError (toy_run 5)) (scalar 7) = Inr (scalar 18)" by code_simp
  have d: "\<not> backwardStep (toy_run 5) < rho (toy_run 5) - 1" by code_simp
  from Backward_dispatch[OF a, of toy "scalar 3" empty_mat] b
  have e: "\<exists>g' st'. Backward toy (scalar 3) (scalar 5) empty_mat (toy_run 3) = Inr (g', st') \<and>
      (g', layers st') =
        (let s1 = BackwardVisitor_own toy RecurrentModule
                    (outputParameterVisitor RecurrentModule (layers (toy_run 3)))
                    (scalar 5) (layers (toy_run 3));
             (g1, s2) = BackwardVisitor toy InputModule
                          (outputParameterVisitor InputModule s1)
                          (deltaVisitor RecurrentModule s1) empty_mat s1
         in (g1, BackwardVisitor_own toy FeedbackModule
                   (outputParameterVisitor FeedbackModule s2)
                   (deltaVisitor RecurrentModule s2) s2))"
    by (simp only: if_True)
  from Backward_dispatch[OF c, of toy "scalar 1" empty_mat] d
  have f: "\<exists>g' st'. Backward toy (scalar 1) (scalar 7) empty_mat (toy_run 5) = Inr (g', st') \<and>
      (g', layers st') =
        BackwardVisitor toy InitialModule
          (outputParameterVisitor InitialModule (layers (toy_run 5))) (scalar 18) empty_mat
          (layers (toy_run 5))"
    by (simp only: if_False)
  from a b c d e f show ?thesis by blast
qed

lemma delta_BackwardVisitor_own:
  "deltaVisitor h (BackwardVisitor_own V h x err s) =
     fst (BackwardVisitor V h x err (deltaVisitor h s) s)"
  by (simp add: BackwardVisitor_own_def set_delta_def deltaVisitor_def split_def Let_def)

lemma accumulate_cases:
  "accumulate re gy = Inr r \<longleftrightarrow>
     (if is_empty re then r = gy else plus_assign re gy = Inr r)"
  by (auto simp: accumulate_def)

lemma Backward_Inr:
  assumes "Backward V input gy g st = Inr (g', st')"
  shows "\<exists>re. accumulate (recurrentError st) gy = Inr re \<and>
           (g', layers st') = Backward_modules V re g st \<and>
           recurrentError st' = deltaVisitor FeedbackModule (layers st') \<and>
           backwardStep st' = backwardStep st + 1"
proof (cases "accumulate (recurrentError st) gy")
  case (Inl e)
  with assms show ?thesis by (simp add: Backward_def)
next
  case (Inr re)
  with assms show ?thesis
    by (auto simp: Backward_def Let_def split_def)
qed

text \<open>
  C5, as amended. A call of Backward that returns: the error it propagates is \<open>gy\<close>
  when \<open>recurrentError\<close> was empty, and \<open>recurrentError\<close> with \<open>gy\<close> added
  element by element otherwise. After either branch \<open>recurrentError\<close> is the delta
  that Feedback holds. In the branch \<open>backwardStep < rho - 1\<close> this is what the
  Backward visitor of Feedback has just left there; in the other branch no visitor is
  applied to Feedback, and it is the delta Feedback holds once the Backward visitor of
  the Initial module has run. The next call of Backward accumulates its \<open>gy\<close> into
  this carried delta.
\<close>

theorem Backward_accumulates:
  assumes "Backward V input gy g st = Inr (g', st')"
  shows "\<exists>re. (if is_empty (recurrentError st) then re = gy
               else plus_assign (recurrentError st) gy = Inr re) \<and>
           (g', layers st') = Backward_modules V re g st \<and>
           recurrentError st' = deltaVisitor FeedbackModule (layers st') \<and>
           (backwardStep st < rho st - 1 \<longrightarrow>
              recurrentError st' =
                (let s1 = BackwardVisitor_own V RecurrentModule
                            (outputParameterVisitor RecurrentModule (layers st)) re (layers st);
                     s2 = snd (BackwardVisitor V InputModule
                                 (outputParameterVisitor InputModule s1)
                                 (deltaVisitor RecurrentModule s1) g s1)
                 in fst (BackwardVisitor V FeedbackModule
                           (outputParameterVisitor FeedbackModule s2)
                           (deltaVisitor RecurrentModule s2)
                           (deltaVisitor FeedbackModule s2) s2))) \<and>
           (\<not> backwardStep st < rho st - 1 \<longrightarrow>
              recurrentError st' =
                deltaVisitor FeedbackModule
                  (snd (BackwardVisitor V InitialModule
                          (outputParameterVisitor InitialModule (layers st)) re g (layers st)))) \<and>
           (\<forall>input2 gy2 g2 g'' st''.
              Backward V input2 gy2 g2 st' = Inr (g'', st'') \<longrightarrow>
              (\<exists>re2. (if is_empty (deltaVisitor FeedbackModule (layers st')) then re2 = gy2
                      else plus_assign (deltaVisitor FeedbackModule (layers st')) gy2 = Inr re2) \<and>
                     (g'', layers st'') = Backward_modules V re2 g2 st'))"
proof -
  from Backward_Inr[OF assms] obtain re where
    acc: "accumulate (recurrentError st) gy = Inr re" and
    mods: "(g', layers st') = Backward_modules V re g st" and
    carried: "recurrentError st' = deltaVisitor FeedbackModule (layers st')"
    by blast
  have entry: "if is_empty (recurrentError st) then re = gy
               else plus_assign (recurrentError st) gy = Inr re"
    using acc by (simp add: accumulate_cases)
  have fresh: "recurrentError st' =
                (let s1 = BackwardVisitor_own V RecurrentModule
                            (outputParameterVisitor RecurrentModule (layers st)) re (layers st);
                     s2 = snd (BackwardVisitor V InputModule
                                 (outputParameterVisitor InputModule s1)
                                 (deltaVisitor RecurrentModule s1) g s1)
                 in fst (BackwardVisitor V FeedbackModule
                           (outputParameterVisitor FeedbackModule s2)
                           (deltaVisitor RecurrentModule s2)
                           (deltaVisitor FeedbackModule s2) s2))"
    if "backwardStep st < rho st - 1"
  proof -
    from mods that have "layers st' =
        (let s1 = BackwardVisitor_own V RecurrentModule
                    (outputParameterVisitor RecurrentModule (layers st)) re (layers st);
             s2 = snd (BackwardVisitor V InputModule
                         (outputParameterVisitor InputModule s1)
                         (deltaVisitor RecurrentModule s1) g s1)
         in BackwardVisitor_own V FeedbackModule
              (outputParameterVisitor FeedbackModule s2)
              (deltaVisitor RecurrentModule s2) s2)"
      by (simp add: Backward_modules_def Let_def split_def prod_eq_iff)
    with carried show ?thesis
      by (simp add: Let_def delta_BackwardVisitor_own)
  qed
  have held: "recurrentError st' =
                deltaVisitor FeedbackModule
                  (snd (BackwardVisitor V InitialModule
                          (outputParameterVisitor InitialModule (layers st)) re g (layers st)))"
    if "\<not> backwardStep st < rho st - 1"
  proof -
    from mods that have "layers st' =
        snd (BackwardVisitor V InitialModule
               (outputParameterVisitor InitialModule (layers st)) re g (layers st))"
      by (simp add: Backward_modules_def Let_def prod_eq_iff)
    with carried show ?thesis by simp
  qed
  have next_call: "\<exists>re2. (if is_empty (deltaVisitor FeedbackModule (layers st')) then re2 = gy2
                      else plus_assign (deltaVisitor FeedbackModule (layers st')) gy2 = Inr re2) \<and>
                     (g'', layers st'') = Backward_modules V re2 g2 st'"
    if "Backward V input2 gy2 g2 st' = Inr (g'', st'')" for input2 gy2 g2 g'' st''
  proof -
    from Backward_Inr[OF that] obtain re2 where
      "accumulate (recurrentError st') gy2 = Inr re2"
      "(g'', layers st'') = Backward_modules V re2 g2 st'" by blast
    then show ?thesis using carried by (auto simp: accumulate_cases)
  qed
  from entry mods carried fresh held next_call show ?thesis by blast
qed

theorem Backward_accumulates_witness:
  "Backward toy (scalar 3) (scalar 5) empty_mat (toy_run 3) = Inr (fst toy_b1, snd toy_b1) \<and>
   Backward toy (scalar 2) (scalar 6) empty_mat (snd toy_b1) = Inr (fst toy_b2, snd toy_b2) \<and>
   backwardStep (toy_run 3) < rho (toy_run 3) - 1 \<and>
   is_empty (recurrentError (toy_run 3)) \<and>
   (fst toy_b1, layers (snd toy_b1)) = Backward_modules toy (scalar 5) empty_mat (toy_run 3) \<and>
   recurrentError (snd toy_b1) = deltaVisitor FeedbackModule (layers (snd toy_b1)) \<and>
   recurrentError (snd toy_b1) = Feedback_backward_delta toy (scalar 5) empty_mat (toy_run 3) \<and>
   recurrentError (snd toy_b1) = scalar 5 \<and>
   plus_assign (deltaVisitor FeedbackModule (layers (snd toy_b1))) (scalar 6) = Inr (scalar 11) \<and>
   (fst toy_b2, layers (snd toy_b2)) = Backward_modules toy (scalar 11) empty_mat (snd toy_b1) \<and>
   Backward toy (scalar 1) (scalar 7) empty_mat (toy_run 5) = Inr (fst toy_b3, snd toy_b3) \<and>
   \<not> backwardStep (toy_run 5) < rho (toy_run 5) - 1 \<and>
   plus_assign (recurrentError (toy_run 5)) (scalar 7) = Inr (scalar 18) \<and>
   recurrentError (snd toy_b3) =
     deltaVisitor FeedbackModule
       (snd (BackwardVisitor toy InitialModule
               (outputParameterVisitor InitialModule (layers (toy_run 5)))
               (scalar 18) empty_mat (layers (toy_run 5)))) \<and>
   recurrentError (snd toy_b3) = scalar 11"
proof -
  have "\<not> isl (Backward toy (scalar 3) (scalar 5) empty_mat (toy_run 3))" by code_simp
  then have h1: "Backward toy (scalar 3) (scalar 5) empty_mat (toy_run 3)
                   = Inr (fst toy_b1, snd toy_b1)"
    by (simp add: toy_b1_def)
  have "\<not> isl (Backward toy (scalar 2) (scalar 6) empty_mat (snd toy_b1))" by code_simp
  then have h2: "Backward toy (scalar 2) (scalar 6) empty_mat (snd toy_b1)
                   = Inr (fst toy_b2, snd toy_b2)"
    by (simp add: toy_b2_def)
  have "\<not> isl (Backward toy (scalar 1) (scalar 7) empty_mat (toy_run 5))" by code_simp
  then have h3: "Backward toy (scalar 1) (scalar 7) empty_mat (toy_run 5)
                   = Inr (fst toy_b3, snd toy_b3)"
    by (simp add: toy_b3_def)
  have a: "backwardStep (toy_run 3) < rho (toy_run 3) - 1" by code_simp
  have b: "is_empty (recurrentError (toy_run 3))" by code_simp
  have c: "\<not> is_empty (deltaVisitor FeedbackModule (layers (snd toy_b1)))" by code_simp
  have d: "plus_assign (deltaVisitor FeedbackModule (layers (snd toy_b1))) (scalar 6)
             = Inr (scalar 11)" by code_simp
  have e: "recurrentError (snd toy_b1) = scalar 5" by code_simp
  have k: "\<not> backwardStep (toy_run 5) < rho (toy_run 5) - 1" by code_simp
  have l: "\<not> is_empty (recurrentError (toy_run 5))" by code_simp
  have m: "plus_assign (recurrentError (toy_run 5)) (scalar 7) = Inr (scalar 18)" by code_simp
  have n: "recurrentError (snd toy_b3) = scalar 11" by code_simp
  from Backward_accumulates[OF h1] obtain re where
    r1: "if is_empty (recurrentError (toy_run 3)) then re = scalar 5
         else plus_assign (recurrentError (toy_run 3)) (scalar 5) = Inr re" and
    r2: "(fst toy_b1, layers (snd toy_b1)) = Backward_modules toy re empty_mat (toy_run 3)" and
    r3: "recurrentError (snd toy_b1) = deltaVisitor FeedbackModule (layers (snd toy_b1))" and
    r5: "backwardStep (toy_run 3) < rho (toy_run 3) - 1 \<longrightarrow>
           recurrentError (snd toy_b1) =
             (let s1 = BackwardVisitor_own toy RecurrentModule
                         (outputParameterVisitor RecurrentModule (layers (toy_run 3))) re
                         (layers (toy_run 3));
                  s2 = snd (BackwardVisitor toy InputModule
                              (outputParameterVisitor InputModule s1)
                              (deltaVisitor RecurrentModule s1) empty_mat s1)
              in fst (BackwardVisitor toy FeedbackModule
                        (outputParameterVisitor FeedbackModule s2)
                        (deltaVisitor RecurrentModule s2)
                        (deltaVisitor FeedbackModule s2) s2))" and
    r4: "\<forall>input2 gy2 g2 g'' st''.
           Backward toy input2 gy2 g2 (snd toy_b1) = Inr (g'', st'') \<longrightarrow>
           (\<exists>re2. (if is_empty (deltaVisitor FeedbackModule (layers (snd toy_b1))) then re2 = gy2
                   else plus_assign (deltaVisitor FeedbackModule (layers (snd toy_b1))) gy2
                          = Inr re2) \<and>
                  (g'', layers st'') = Backward_modules toy re2 g2 (snd toy_b1))"
    by blast
  from r1 b have re: "re = scalar 5" by simp
  from r5 a re have fresh: "recurrentError (snd toy_b1)
                              = Feedback_backward_delta toy (scalar 5) empty_mat (toy_run 3)"
    by (simp add: Feedback_backward_delta_def)
  from r4 h2 obtain re2 where
    "if is_empty (deltaVisitor FeedbackModule (layers (snd toy_b1))) then re2 = scalar 6
     else plus_assign (deltaVisitor FeedbackModule (layers (snd toy_b1))) (scalar 6) = Inr re2"
    and n2: "(fst toy_b2, layers (snd toy_b2)) = Backward_modules toy re2 empty_mat (snd toy_b1)"
    by blast
  with c d have re2: "re2 = scalar 11" by simp
  from Backward_accumulates[OF h3] obtain re3 where
    q1: "if is_empty (recurrentError (toy_run 5)) then re3 = scalar 7
         else plus_assign (recurrentError (toy_run 5)) (scalar 7) = Inr re3" and
    q2: "\<not> backwardStep (toy_run 5) < rho (toy_run 5) - 1 \<longrightarrow>
           recurrentError (snd toy_b3) =
             deltaVisitor FeedbackModule
               (snd (BackwardVisitor toy InitialModule
                       (outputParameterVisitor InitialModule (layers (toy_run 5)))
                       re3 empty_mat (layers (toy_run 5))))"
    by blast
  from q1 l m have re3: "re3 = scalar 18" by simp
  from q2 k re3 have held: "recurrentError (snd toy_b3) =
     deltaVisitor FeedbackModule
       (snd (BackwardVisitor toy InitialModule
               (outputParameterVisitor InitialModule (layers (toy_run 5)))
               (scalar 18) empty_mat (layers (toy_run 5))))"
    by simp
  from n2 re2 r2 r3 re h1 h2 h3 a b d e k m n fresh held show ?thesis by blast
qed

text \<open>
  The claim as it was written fails in the branch of the Initial module: there no
  Backward visitor is applied to Feedback (lines 189 to 191), and line 194 reads the
  delta that Feedback has held since the call before. In the third Backward call of
  a window with \<open>rho = 3\<close> the error propagated is 18; \<open>recurrentError\<close> becomes 11,
  the delta Feedback held before the call, and not the delta that the Backward visitor
  of Feedback computes from this error.
\<close>

theorem Backward_stale_delta:
  "\<not> backwardStep (toy_run 5) < rho (toy_run 5) - 1 \<and>
   accumulate (recurrentError (toy_run 5)) (scalar 7) = Inr (scalar 18) \<and>
   \<not> isl (Backward toy (scalar 1) (scalar 7) empty_mat (toy_run 5)) \<and>
   deltaVisitor FeedbackModule (layers (toy_run 5)) = scalar 11 \<and>
   recurrentError (snd toy_b3) = deltaVisitor FeedbackModule (layers (toy_run 5)) \<and>
   Feedback_backward_delta toy (scalar 18) empty_mat (toy_run 5) = scalar 18 \<and>
   recurrentError (snd toy_b3) \<noteq> Feedback_backward_delta toy (scalar 18) empty_mat (toy_run 5)"
  by code_simp

subsection \<open>Gradient\<close>

lemma unat_of_nat_size_t: "n < 2 ^ 64 \<Longrightarrow> unat (of_nat n :: size_t) = n"
  by (simp add: unat_of_nat)

lemma feedback_index_nat:
  assumes "unat (gradientStep st) + 2 \<le> length (feedbackOutputParameter st)"
      and "length (feedbackOutputParameter st) < 2 ^ 64"
  shows "unat (feedback_index st) = length (feedbackOutputParameter st) - 2 - unat (gradientStep st)"
proof -
  let ?n = "length (feedbackOutputParameter st)"
  have n: "unat (of_nat ?n :: size_t) = ?n"
    using assms(2) by (rule unat_of_nat_size_t)
  have "(2 :: size_t) \<le> of_nat ?n"
    using n assms(1) by (simp add: word_le_nat_alt)
  then have u2: "unat (of_nat ?n - 2 :: size_t) = ?n - 2"
    using n by (simp add: unat_sub)
  have "gradientStep st \<le> of_nat ?n - 2"
    using u2 assms(1) by (simp add: word_le_nat_alt)
  then have "unat (of_nat ?n - 2 - gradientStep st)
               = unat (of_nat ?n - 2 :: size_t) - unat (gradientStep st)"
    by (rule unat_sub)
  with u2 show ?thesis by (simp add: feedback_index_def)
qed

text \<open>
  C6. A call of Gradient with \<open>gradientStep < rho - 1\<close> whose index is inside the
  history returns, and the gradient of Feedback is computed from the saved output at
  index \<open>size - 2 - gradientStep\<close> of \<open>feedbackOutputParameter\<close> and the delta
  of Merge; the output that Transfer holds now is not an argument. The index is
  computed in \<^verbatim>\<open>size_t\<close>; when the history holds at least \<open>gradientStep + 2\<close>
  elements it is the natural number \<open>size - 2 - gradientStep\<close>.
\<close>

theorem Gradient_feedback_history:
  assumes "gradientStep st < rho st - 1"
      and "unat (feedback_index st) < length (feedbackOutputParameter st)"
  shows "(\<exists>st'. Gradient V input err gradient st = Inr st' \<and>
            layers st' =
              (let s1 = GradientVisitor V RecurrentModule input err (layers st);
                   s2 = GradientVisitor V InputModule input (deltaVisitor MergeModule s1) s1
               in GradientVisitor V FeedbackModule
                    (feedbackOutputParameter st ! unat (feedback_index st))
                    (deltaVisitor MergeModule s2) s2)) \<and>
         (unat (gradientStep st) + 2 \<le> length (feedbackOutputParameter st) \<and>
          length (feedbackOutputParameter st) < 2 ^ 64 \<longrightarrow>
            unat (feedback_index st)
              = length (feedbackOutputParameter st) - 2 - unat (gradientStep st))"
proof -
  have "\<exists>st'. Gradient V input err gradient st = Inr st' \<and>
            layers st' =
              (let s1 = GradientVisitor V RecurrentModule input err (layers st);
                   s2 = GradientVisitor V InputModule input (deltaVisitor MergeModule s1) s1
               in GradientVisitor V FeedbackModule
                    (feedbackOutputParameter st ! unat (feedback_index st))
                    (deltaVisitor MergeModule s2) s2)"
    using assms by (simp add: Gradient_def Gradient_modules_def Let_def)
  with feedback_index_nat[of st] show ?thesis by blast
qed

theorem Gradient_feedback_history_witness:
  "gradientStep (toy_run 6) < rho (toy_run 6) - 1 \<and>
   unat (feedback_index (toy_run 6)) < length (feedbackOutputParameter (toy_run 6)) \<and>
   unat (gradientStep (toy_run 6)) + 2 \<le> length (feedbackOutputParameter (toy_run 6)) \<and>
   length (feedbackOutputParameter (toy_run 6)) < 2 ^ 64 \<and>
   unat (feedback_index (toy_run 6)) = 3 - 2 - 0 \<and>
   feedbackOutputParameter (toy_run 6) ! unat (feedback_index (toy_run 6)) = scalar 1125 \<and>
   outputParameterVisitor TransferModule (layers (toy_run 6)) = scalar 2139 \<and>
   (\<exists>st'. Gradient toy (scalar 3) (scalar 5) empty_mat (toy_run 6) = Inr st' \<and>
      layers st' =
        (let s1 = GradientVisitor toy RecurrentModule (scalar 3) (scalar 5) (layers (toy_run 6));
             s2 = GradientVisitor toy InputModule (scalar 3) (deltaVisitor MergeModule s1) s1
         in GradientVisitor toy FeedbackModule
              (feedbackOutputParameter (toy_run 6) ! unat (feedback_index (toy_run 6)))
              (deltaVisitor MergeModule s2) s2)) \<and>
   body (layers toy_g1 FeedbackModule) = Custom [(scalar 1125, scalar 11)]"
proof -
  have a: "gradientStep (toy_run 6) < rho (toy_run 6) - 1" by code_simp
  have b: "unat (feedback_index (toy_run 6)) < length (feedbackOutputParameter (toy_run 6))"
    by code_simp
  have c: "unat (gradientStep (toy_run 6)) + 2 \<le> length (feedbackOutputParameter (toy_run 6))"
    by code_simp
  have l: "length (feedbackOutputParameter (toy_run 6)) = 3" by code_simp
  have g: "unat (gradientStep (toy_run 6)) = 0" by code_simp
  have d: "length (feedbackOutputParameter (toy_run 6)) < 2 ^ 64" by (simp add: l)
  have e: "feedbackOutputParameter (toy_run 6) ! unat (feedback_index (toy_run 6)) = scalar 1125"
    by code_simp
  have f: "outputParameterVisitor TransferModule (layers (toy_run 6)) = scalar 2139"
    by code_simp
  have h: "body (layers toy_g1 FeedbackModule) = Custom [(scalar 1125, scalar 11)]"
    by code_simp
  from Gradient_feedback_history[OF a b, of toy "scalar 3" "scalar 5" empty_mat] c d
  have ex: "(\<exists>st'. Gradient toy (scalar 3) (scalar 5) empty_mat (toy_run 6) = Inr st' \<and>
      layers st' =
        (let s1 = GradientVisitor toy RecurrentModule (scalar 3) (scalar 5) (layers (toy_run 6));
             s2 = GradientVisitor toy InputModule (scalar 3) (deltaVisitor MergeModule s1) s1
         in GradientVisitor toy FeedbackModule
              (feedbackOutputParameter (toy_run 6) ! unat (feedback_index (toy_run 6)))
              (deltaVisitor MergeModule s2) s2))"
    and idx: "unat (feedback_index (toy_run 6))
       = length (feedbackOutputParameter (toy_run 6)) - 2 - unat (gradientStep (toy_run 6))"
    by blast+
  from idx l g have i: "unat (feedback_index (toy_run 6)) = 3 - 2 - 0" by simp
  from a b c d e f h ex i show ?thesis by blast
qed

text \<open>
  C7. A call of Gradient with \<open>gradientStep = rho - 1\<close> returns; it zeroes the gradients
  of Recurrent-body, Input and Feedback, and then applies one Gradient visitor, to the
  Initial module, with the input and the delta of Start. No Gradient visitor is
  applied to Recurrent-body, Input or Feedback, and the error argument of the call is
  not used.
\<close>

theorem Gradient_boundary:
  assumes "gradientStep st = rho st - 1"
  shows "\<exists>st'. Gradient V input err gradient st = Inr st' \<and>
           layers st' =
             (let s1 = GradientZeroVisitor V RecurrentModule (layers st);
                  s2 = GradientZeroVisitor V InputModule s1;
                  s3 = GradientZeroVisitor V FeedbackModule s2
              in GradientVisitor V InitialModule input (deltaVisitor StartModule s3) s3) \<and>
           Gradient V input err2 gradient2 st = Inr st'"
  using assms by (simp add: Gradient_def Gradient_modules_def Let_def)


theorem Gradient_boundary_witness:
  "gradientStep (toy_run 8) = rho (toy_run 8) - 1 \<and>
   (\<exists>st'. Gradient toy (scalar 1) (scalar 7) empty_mat (toy_run 8) = Inr st' \<and>
      layers st' =
        (let s1 = GradientZeroVisitor toy RecurrentModule (layers (toy_run 8));
             s2 = GradientZeroVisitor toy InputModule s1;
             s3 = GradientZeroVisitor toy FeedbackModule s2
         in GradientVisitor toy InitialModule (scalar 1) (deltaVisitor StartModule s3) s3)) \<and>
   body (layers (toy_run 8) FeedbackModule)
     = Custom [(scalar 1125, scalar 11), (scalar 112, scalar 11)] \<and>
   body (layers toy_g3 FeedbackModule) = Custom [] \<and>
   body (layers toy_g3 InputModule) = Custom []"
proof -
  have a: "gradientStep (toy_run 8) = rho (toy_run 8) - 1" by code_simp
  have b: "body (layers (toy_run 8) FeedbackModule)
             = Custom [(scalar 1125, scalar 11), (scalar 112, scalar 11)]" by code_simp
  have c: "body (layers toy_g3 FeedbackModule) = Custom []" by code_simp
  have d: "body (layers toy_g3 InputModule) = Custom []" by code_simp
  from Gradient_boundary[OF a, of toy "scalar 1" "scalar 7" empty_mat "scalar 7" empty_mat]
  have "\<exists>st'. Gradient toy (scalar 1) (scalar 7) empty_mat (toy_run 8) = Inr st' \<and>
      layers st' =
        (let s1 = GradientZeroVisitor toy RecurrentModule (layers (toy_run 8));
             s2 = GradientZeroVisitor toy InputModule s1;
             s3 = GradientZeroVisitor toy FeedbackModule s2
         in GradientVisitor toy InitialModule (scalar 1) (deltaVisitor StartModule s3) s3)"
    by blast
  with a b c d show ?thesis by blast
qed

subsection \<open>Construction and loading\<close>

lemma new_composites:
  "new_layer RecurrentModule r (new_layer MergeModule m (new_layer InitialModule i
     (s(StartModule := a, InputModule := b, FeedbackModule := c, TransferModule := d)))) =
   new_layer RecurrentModule r (new_layer MergeModule m (new_layer InitialModule i
     (s'(StartModule := a, InputModule := b, FeedbackModule := c, TransferModule := d))))"
proof (rule ext)
  fix h
  show "new_layer RecurrentModule r (new_layer MergeModule m (new_layer InitialModule i
          (s(StartModule := a, InputModule := b, FeedbackModule := c, TransferModule := d)))) h =
        new_layer RecurrentModule r (new_layer MergeModule m (new_layer InitialModule i
          (s'(StartModule := a, InputModule := b, FeedbackModule := c, TransferModule := d)))) h"
    by (cases h) (simp_all add: new_layer_def)
qed

lemma serialize_load_layers:
  "layers (serialize_load V ar st) =
     layers (Recurrent_ctor V (ar_startModule ar) (ar_inputModule ar)
               (ar_feedbackModule ar) (ar_transferModule ar) (ar_rho ar))"
  unfolding serialize_load_def Recurrent_ctor_def Let_def
  by (simp add: new_composites[of _ _ _ "DeleteVisitor V StartModule
        (DeleteVisitor V InitialModule (DeleteVisitor V RecurrentModule (layers st)))" _ _ _ _ unbound])

text \<open>
  C9. Loading builds the containers by the same steps, in the same order, as the value
  constructor: after a load from an archive, whatever the object was before, the seven
  layers (the four read and the three containers with their children) and the network
  list are those of an object constructed from the four layers read, and \<open>rho\<close> is
  the one read. Loading leaves the counters, the mode flag and the two buffers as they
  were; when these are as a constructor leaves them and the archive says the layers are
  owned, the loaded object is the constructed one.
\<close>

theorem serialize_load_wiring:
  "layers (serialize_load V ar st) =
     layers (Recurrent_ctor V (ar_startModule ar) (ar_inputModule ar)
               (ar_feedbackModule ar) (ar_transferModule ar) (ar_rho ar)) \<and>
   network (serialize_load V ar st) =
     network (Recurrent_ctor V (ar_startModule ar) (ar_inputModule ar)
               (ar_feedbackModule ar) (ar_transferModule ar) (ar_rho ar)) \<and>
   rho (serialize_load V ar st) = ar_rho ar \<and>
   (ar_ownsLayer ar \<and> forwardStep st = 0 \<and> backwardStep st = 0 \<and> gradientStep st = 0 \<and>
    \<not> deterministic st \<and> recurrentError st = empty_mat \<and> feedbackOutputParameter st = []
    \<longrightarrow> serialize_load V ar st =
          Recurrent_ctor V (ar_startModule ar) (ar_inputModule ar)
            (ar_feedbackModule ar) (ar_transferModule ar) (ar_rho ar))"
proof -
  let ?c = "Recurrent_ctor V (ar_startModule ar) (ar_inputModule ar)
              (ar_feedbackModule ar) (ar_transferModule ar) (ar_rho ar)"
  have l: "layers (serialize_load V ar st) = layers ?c" by (rule serialize_load_layers)
  have n: "network (serialize_load V ar st) = network ?c"
    by (simp add: serialize_load_def Recurrent_ctor_def Let_def)
  have r: "rho (serialize_load V ar st) = ar_rho ar"
    by (simp add: serialize_load_def Let_def)
  have rest: "ownsLayer (serialize_load V ar st) = ar_ownsLayer ar"
    "forwardStep (serialize_load V ar st) = forwardStep st"
    "backwardStep (serialize_load V ar st) = backwardStep st"
    "gradientStep (serialize_load V ar st) = gradientStep st"
    "deterministic (serialize_load V ar st) = deterministic st"
    "recurrentError (serialize_load V ar st) = recurrentError st"
    "feedbackOutputParameter (serialize_load V ar st) = feedbackOutputParameter st"
    by (simp_all add: serialize_load_def Let_def)
  have c: "rho ?c = ar_rho ar" "ownsLayer ?c" "forwardStep ?c = 0" "backwardStep ?c = 0"
    "gradientStep ?c = 0" "\<not> deterministic ?c" "recurrentError ?c = empty_mat"
    "feedbackOutputParameter ?c = []"
    by (simp_all add: Recurrent_ctor_def Let_def)
  have "serialize_load V ar st = ?c"
    if "ar_ownsLayer ar \<and> forwardStep st = 0 \<and> backwardStep st = 0 \<and> gradientStep st = 0 \<and>
        \<not> deterministic st \<and> recurrentError st = empty_mat \<and> feedbackOutputParameter st = []"
    using that l n r rest c by (intro Recurrent.equality) simp_all
  with l n r show ?thesis by blast
qed

theorem serialize_load_wiring_witness:
  "ar_ownsLayer toy_archive \<and> forwardStep (toy_Recurrent 2) = 0 \<and>
   backwardStep (toy_Recurrent 2) = 0 \<and> gradientStep (toy_Recurrent 2) = 0 \<and>
   \<not> deterministic (toy_Recurrent 2) \<and> recurrentError (toy_Recurrent 2) = empty_mat \<and>
   feedbackOutputParameter (toy_Recurrent 2) = [] \<and>
   serialize_load toy toy_archive (toy_Recurrent 2) = toy_Recurrent 3 \<and>
   body (layers (serialize_load toy toy_archive (toy_run 5)) InitialModule)
     = Sequential None [InputModule, StartModule, TransferModule] \<and>
   body (layers (serialize_load toy toy_archive (toy_run 5)) MergeModule)
     = AddMerge False False [InputModule, FeedbackModule] \<and>
   body (layers (serialize_load toy toy_archive (toy_run 5)) RecurrentModule)
     = Sequential (Some False) [MergeModule, TransferModule] \<and>
   network (serialize_load toy toy_archive (toy_run 5))
     = [InitialModule, MergeModule, FeedbackModule, RecurrentModule]"
proof -
  have h: "ar_ownsLayer toy_archive \<and> forwardStep (toy_Recurrent 2) = 0 \<and>
   backwardStep (toy_Recurrent 2) = 0 \<and> gradientStep (toy_Recurrent 2) = 0 \<and>
   \<not> deterministic (toy_Recurrent 2) \<and> recurrentError (toy_Recurrent 2) = empty_mat \<and>
   feedbackOutputParameter (toy_Recurrent 2) = []"
    by code_simp
  have a: "ar_startModule toy_archive = toy_layer" "ar_inputModule toy_archive = toy_layer"
    "ar_feedbackModule toy_archive = toy_layer" "ar_transferModule toy_archive = toy_layer"
    "ar_rho toy_archive = 3"
    by (simp_all add: toy_archive_def)
  from serialize_load_wiring[of toy toy_archive "toy_Recurrent 2"] h
  have e: "serialize_load toy toy_archive (toy_Recurrent 2) = toy_Recurrent 3"
    by (simp add: a toy_Recurrent_def)
  have b: "body (layers (serialize_load toy toy_archive (toy_run 5)) InitialModule)
     = Sequential None [InputModule, StartModule, TransferModule]" by code_simp
  have c: "body (layers (serialize_load toy toy_archive (toy_run 5)) MergeModule)
     = AddMerge False False [InputModule, FeedbackModule]" by code_simp
  have d: "body (layers (serialize_load toy toy_archive (toy_run 5)) RecurrentModule)
     = Sequential (Some False) [MergeModule, TransferModule]" by code_simp
  have f: "network (serialize_load toy toy_archive (toy_run 5))
     = [InitialModule, MergeModule, FeedbackModule, RecurrentModule]" by code_simp
  from h e b c d f show ?thesis by blast
qed

subsection \<open>The documented call pattern\<close>

lemma unat_inc_nat: "unat (x::size_t) < unat (y::size_t) \<Longrightarrow> unat (x + 1) = Suc (unat x)"
  by (rule unat_inc[of x y]) (simp add: word_less_nat_alt)

lemma inc_eq_iff:
  "unat (x::size_t) < unat (y::size_t) \<Longrightarrow> (x + 1 = y) = (Suc (unat x) = unat y)"
  using unat_inc_nat[of x y] inc_eq[of x y] by auto

lemma Forward_fields:
  "rho (snd (Forward V input output st)) = rho st"
  "gradientStep (snd (Forward V input output st)) = gradientStep st"
  "deterministic (snd (Forward V input output st)) = deterministic st"
  "feedbackOutputParameter (snd (Forward V input output st)) =
     (if deterministic st then feedbackOutputParameter st
      else feedbackOutputParameter st @ [fst (Forward V input output st)])"
  "forwardStep (snd (Forward V input output st)) =
     (if forwardStep st + 1 = rho st then 0 else forwardStep st + 1)"
  "backwardStep (snd (Forward V input output st)) =
     (if forwardStep st + 1 = rho st then 0 else backwardStep st)"
  by (simp_all add: Forward_def Let_def split_def)

lemma Backward_fields:
  assumes "Backward V input gy g st = Inr (g', st')"
  shows "rho st' = rho st" "forwardStep st' = forwardStep st"
    "backwardStep st' = backwardStep st + 1" "gradientStep st' = gradientStep st"
    "deterministic st' = deterministic st"
    "feedbackOutputParameter st' = feedbackOutputParameter st"
  using assms
  by (auto simp: Backward_def Let_def split_def split: sum.splits)

lemma Gradient_fields:
  assumes "Gradient V input err gradient st = Inr st'"
  shows "rho st' = rho st" "forwardStep st' = forwardStep st"
    "backwardStep st' = backwardStep st" "deterministic st' = deterministic st"
    "gradientStep st' = (if gradientStep st + 1 = rho st then 0 else gradientStep st + 1)"
    "feedbackOutputParameter st' =
       (if gradientStep st + 1 = rho st then [] else feedbackOutputParameter st)"
  using assms
  by (auto simp: Gradient_def Let_def split: sum.splits if_splits)

lemma pattern_inv_step:
  assumes inv: "pattern_inv R p st"
      and adv: "advance R p c = Some p'"
      and stp: "step V c st = Inr st'"
  shows "pattern_inv R p' st'"
proof -
  obtain f b g where p: "p = (f, b, g)" by (cases p)
  from inv p have R: "0 < R" "unat (rho st) = R" and bounds: "f \<le> R" "b \<le> R" "g < R"
    and fs: "unat (forwardStep st) = (if f = R then 0 else f)"
    and bs: "unat (backwardStep st) \<le> R" "f = R \<longrightarrow> unat (backwardStep st) = b"
    and gs: "unat (gradientStep st) = g"
    and det: "\<not> deterministic st" and len: "length (feedbackOutputParameter st) = f"
    by (simp_all add: pattern_inv_def)
  show ?thesis
  proof (cases c)
    case (ForwardCall i o')
    with adv p have f: "f < R" "b = 0" "g = 0" and p': "p' = (f + 1, 0, 0)"
      by (auto split: if_splits)
    from stp ForwardCall have st': "st' = snd (Forward V i o' st)" by simp
    from fs f have ufs: "unat (forwardStep st) = f" by simp
    with f R have lt: "unat (forwardStep st) < unat (rho st)" by simp
    note eq = inc_eq_iff[OF lt] and inc = unat_inc_nat[OF lt]
    show ?thesis
      using R f ufs gs det len bs eq inc
      by (auto simp: pattern_inv_def p' st' Forward_fields)
  next
    case (BackwardCall i gy g0)
    with adv p have f: "f = R" "b < R" "g = 0" and p': "p' = (f, b + 1, 0)"
      by (auto split: if_splits)
    from stp BackwardCall obtain g' where B: "Backward V i gy g0 st = Inr (g', st')"
      by (auto split: sum.splits)
    from bs f have ubs: "unat (backwardStep st) = b" by simp
    with f R have lt: "unat (backwardStep st) < unat (rho st)" by simp
    note inc = unat_inc_nat[OF lt]
    show ?thesis
      using R f ubs fs gs det len inc
      by (auto simp: pattern_inv_def p' Backward_fields[OF B])
  next
    case (GradientCall i err gr)
    with adv p have f: "f = R" "b = R" "g < R"
      and p': "p' = (if g + 1 = R then (0, 0, 0) else (f, b, g + 1))"
      by (auto split: if_splits)
    from stp GradientCall have G: "Gradient V i err gr st = Inr st'" by simp
    from gs f R have lt: "unat (gradientStep st) < unat (rho st)" by simp
    note eq = inc_eq_iff[OF lt] and inc = unat_inc_nat[OF lt]
    show ?thesis
      using R f fs bs gs det len eq inc
      by (auto simp: pattern_inv_def p' Gradient_fields[OF G])
  qed
qed

lemma pattern_inv_run:
  "pattern_inv R p st \<Longrightarrow> follows R p cs = Some p' \<Longrightarrow> run V st cs = Inr st'
     \<Longrightarrow> pattern_inv R p' st'"
proof (induction cs arbitrary: p st)
  case Nil
  then show ?case by simp
next
  case (Cons c cs)
  from Cons.prems(2) obtain q where q: "advance R p c = Some q" "follows R q cs = Some p'"
    by (auto split: option.splits)
  from Cons.prems(3) obtain s where s: "step V c st = Inr s" "run V s cs = Inr st'"
    by (auto split: sum.splits)
  from pattern_inv_step[OF Cons.prems(1) q(1) s(1)] have "pattern_inv R q s" .
  from Cons.IH[OF this q(2) s(2)] show ?case .
qed

lemma pattern_inv_ctor:
  "r \<noteq> 0 \<Longrightarrow> pattern_inv (unat r) (0, 0, 0) (Recurrent_ctor V a b c d r)"
  by (simp add: pattern_inv_def Recurrent_ctor_def Let_def unat_gt_0)

lemma pattern_reachable:
  assumes "r \<noteq> 0" and "follows (unat r) (0, 0, 0) cs = Some p"
      and "run V (Recurrent_ctor V a b c d r) cs = Inr st"
  shows "pattern_inv (unat r) p st"
  using pattern_inv_run[OF pattern_inv_ctor[OF assms(1)] assms(2,3)] .


lemma run_Inr_toy_run:
  "\<not> isl (run toy (toy_Recurrent 3) (take k toy_calls)) \<Longrightarrow>
     run toy (toy_Recurrent 3) (take k toy_calls) = Inr (toy_run k)"
  by (cases "run toy (toy_Recurrent 3) (take k toy_calls)") (simp_all add: toy_run_def)

text \<open>
  C3, as amended. In every state reached from a freshly constructed object with
  \<open>rho > 0\<close> by calls that follow the pattern, \<open>forwardStep\<close> and \<open>gradientStep\<close>
  are strictly less than \<open>rho\<close>, and \<open>backwardStep\<close> is at most \<open>rho\<close>.
\<close>

theorem counters_bounded:
  assumes "r \<noteq> 0" and "follows (unat r) (0, 0, 0) cs = Some p"
      and "run V (Recurrent_ctor V a1 a2 a3 a4 r) cs = Inr st"
  shows "forwardStep st < rho st \<and> gradientStep st < rho st \<and> backwardStep st \<le> rho st"
proof -
  obtain f b g where p: "p = (f, b, g)" by (cases p)
  from pattern_reachable[OF assms] p
  have "0 < unat (rho st)" "unat (forwardStep st) = (if f = unat (rho st) then 0 else f)"
    "f \<le> unat (rho st)" "unat (gradientStep st) < unat (rho st)"
    "unat (backwardStep st) \<le> unat (rho st)"
    by (auto simp: pattern_inv_def)
  then show ?thesis
    by (auto simp: word_less_nat_alt word_le_nat_alt split: if_splits)
qed

theorem counters_bounded_witness:
  "(3::size_t) \<noteq> 0 \<and> follows (unat (3::size_t)) (0, 0, 0) (take 6 toy_calls) = Some (3, 3, 0) \<and>
   run toy (Recurrent_ctor toy toy_layer toy_layer toy_layer toy_layer 3) (take 6 toy_calls)
     = Inr (toy_run 6) \<and>
   forwardStep (toy_run 6) < rho (toy_run 6) \<and> gradientStep (toy_run 6) < rho (toy_run 6) \<and>
   backwardStep (toy_run 6) \<le> rho (toy_run 6)"
proof -
  have h1: "(3::size_t) \<noteq> 0" by simp
  have h2: "follows (unat (3::size_t)) (0, 0, 0) (take 6 toy_calls) = Some (3, 3, 0)"
    by code_simp
  have "\<not> isl (run toy (toy_Recurrent 3) (take 6 toy_calls))" by code_simp
  then have h3: "run toy (Recurrent_ctor toy toy_layer toy_layer toy_layer toy_layer 3)
                   (take 6 toy_calls) = Inr (toy_run 6)"
    using run_Inr_toy_run[of 6] by (simp add: toy_Recurrent_def)
  from counters_bounded[OF h1 h2 h3] h1 h2 h3 show ?thesis by blast
qed

text \<open>
  The bound on \<open>backwardStep\<close> is not strict: Backward only increments it (line 195),
  and after the three Forward and three Backward calls of a window with \<open>rho = 3\<close> it
  is 3.
\<close>

theorem backwardStep_reaches_rho:
  "rho (toy_Recurrent 3) = 3 \<and>
   follows 3 (0, 0, 0) (take 6 toy_calls) = Some (3, 3, 0) \<and>
   \<not> isl (run toy (toy_Recurrent 3) (take 6 toy_calls)) \<and>
   rho (projr (run toy (toy_Recurrent 3) (take 6 toy_calls))) = 3 \<and>
   backwardStep (projr (run toy (toy_Recurrent 3) (take 6 toy_calls))) = 3 \<and>
   \<not> backwardStep (projr (run toy (toy_Recurrent 3) (take 6 toy_calls)))
       < rho (projr (run toy (toy_Recurrent 3) (take 6 toy_calls)))"
  by code_simp

lemma inference_step:
  assumes "deterministic st" and "feedbackOutputParameter st = []" and "step V c st = Inr st'"
  shows "deterministic st' \<and> feedbackOutputParameter st' = []"
proof (cases c)
  case (ForwardCall i o')
  with assms(3) have "st' = snd (Forward V i o' st)" by simp
  with assms(1,2) show ?thesis by (simp add: Forward_fields)
next
  case (BackwardCall i gy g0)
  with assms(3) obtain g' where "Backward V i gy g0 st = Inr (g', st')"
    by (auto split: sum.splits)
  from Backward_fields(5,6)[OF this] assms(1,2) show ?thesis by simp
next
  case (GradientCall i err gr)
  with assms(3) have "Gradient V i err gr st = Inr st'" by simp
  from Gradient_fields(4,6)[OF this] assms(1,2) show ?thesis by simp
qed

lemma inference_run:
  "deterministic st \<Longrightarrow> feedbackOutputParameter st = [] \<Longrightarrow> run V st cs = Inr st'
     \<Longrightarrow> deterministic st' \<and> feedbackOutputParameter st' = []"
proof (induction cs arbitrary: st)
  case Nil
  then show ?case by simp
next
  case (Cons c cs)
  from Cons.prems(3) obtain s where s: "step V c st = Inr s" "run V s cs = Inr st'"
    by (auto split: sum.splits)
  from inference_step[OF Cons.prems(1,2) s(1)] Cons.IH[OF _ _ s(2)] show ?case by blast
qed

text \<open>
  C8. From a freshly constructed object (training mode) with \<open>rho > 0\<close> and calls that
  follow the pattern, at position \<open>(f, b, g)\<close> the history \<open>feedbackOutputParameter\<close>
  holds \<open>f\<close> elements, the number of Forward calls made in the open window;
  \<open>forwardStep\<close> is this number until it wraps to 0 at the \<open>rho\<close>-th call. With the
  deterministic flag set and an empty history, the history stays empty under any calls.
  A call of Gradient empties the history when \<open>gradientStep + 1 = rho\<close>, the call at
  which \<open>gradientStep\<close> wraps to 0, and leaves it as it is otherwise.
\<close>

theorem feedbackOutputParameter_history:
  "(r \<noteq> 0 \<and> follows (unat r) (0, 0, 0) cs = Some (f, b, g) \<and>
    run V (Recurrent_ctor V a1 a2 a3 a4 r) cs = Inr st \<longrightarrow>
      length (feedbackOutputParameter st) = f \<and>
      unat (forwardStep st) = (if f = unat r then 0 else f)) \<and>
   (deterministic st0 \<and> feedbackOutputParameter st0 = [] \<and> run V st0 cs0 = Inr st0' \<longrightarrow>
      feedbackOutputParameter st0' = []) \<and>
   (Gradient V input err gradient st1 = Inr st2 \<longrightarrow>
      feedbackOutputParameter st2 =
        (if gradientStep st1 + 1 = rho st1 then [] else feedbackOutputParameter st1) \<and>
      gradientStep st2 = (if gradientStep st1 + 1 = rho st1 then 0 else gradientStep st1 + 1))"
proof -
  have one: "length (feedbackOutputParameter st) = f \<and>
             unat (forwardStep st) = (if f = unat r then 0 else f)"
    if "r \<noteq> 0" "follows (unat r) (0, 0, 0) cs = Some (f, b, g)"
       "run V (Recurrent_ctor V a1 a2 a3 a4 r) cs = Inr st"
    using pattern_reachable[OF that] by (simp add: pattern_inv_def)
  have two: "feedbackOutputParameter st0' = []"
    if "deterministic st0" "feedbackOutputParameter st0 = []" "run V st0 cs0 = Inr st0'"
    using inference_run[OF that] by blast
  have three: "feedbackOutputParameter st2 =
        (if gradientStep st1 + 1 = rho st1 then [] else feedbackOutputParameter st1) \<and>
      gradientStep st2 = (if gradientStep st1 + 1 = rho st1 then 0 else gradientStep st1 + 1)"
    if "Gradient V input err gradient st1 = Inr st2"
    using Gradient_fields(5,6)[OF that] by blast
  from one two three show ?thesis by blast
qed

theorem feedbackOutputParameter_history_witness:
  "(3::size_t) \<noteq> 0 \<and>
   follows (unat (3::size_t)) (0, 0, 0) (take 2 toy_calls) = Some (2, 0, 0) \<and>
   run toy (Recurrent_ctor toy toy_layer toy_layer toy_layer toy_layer 3) (take 2 toy_calls)
     = Inr (toy_run 2) \<and>
   length (feedbackOutputParameter (toy_run 2)) = 2 \<and> unat (forwardStep (toy_run 2)) = 2 \<and>
   follows (unat (3::size_t)) (0, 0, 0) (take 5 toy_calls) = Some (3, 2, 0) \<and>
   run toy (Recurrent_ctor toy toy_layer toy_layer toy_layer toy_layer 3) (take 5 toy_calls)
     = Inr (toy_run 5) \<and>
   length (feedbackOutputParameter (toy_run 5)) = 3 \<and> unat (forwardStep (toy_run 5)) = 0 \<and>
   deterministic ((toy_Recurrent 3)\<lparr>deterministic := True\<rparr>) \<and>
   feedbackOutputParameter ((toy_Recurrent 3)\<lparr>deterministic := True\<rparr>) = [] \<and>
   run toy ((toy_Recurrent 3)\<lparr>deterministic := True\<rparr>) (take 3 toy_calls) = Inr toy_inference \<and>
   feedbackOutputParameter toy_inference = [] \<and>
   Gradient toy (scalar 1) (scalar 7) empty_mat (toy_run 8) = Inr toy_g3 \<and>
   gradientStep (toy_run 8) + 1 = rho (toy_run 8) \<and>
   length (feedbackOutputParameter (toy_run 8)) = 3 \<and>
   feedbackOutputParameter toy_g3 = [] \<and> gradientStep toy_g3 = 0"
proof -
  have h1: "(3::size_t) \<noteq> 0" by simp
  have a2: "follows (unat (3::size_t)) (0, 0, 0) (take 2 toy_calls) = Some (2, 0, 0)"
    by code_simp
  have "\<not> isl (run toy (toy_Recurrent 3) (take 2 toy_calls))" by code_simp
  then have a3: "run toy (Recurrent_ctor toy toy_layer toy_layer toy_layer toy_layer 3)
                   (take 2 toy_calls) = Inr (toy_run 2)"
    using run_Inr_toy_run[of 2] by (simp add: toy_Recurrent_def)
  have b2: "follows (unat (3::size_t)) (0, 0, 0) (take 5 toy_calls) = Some (3, 2, 0)"
    by code_simp
  have "\<not> isl (run toy (toy_Recurrent 3) (take 5 toy_calls))" by code_simp
  then have b3: "run toy (Recurrent_ctor toy toy_layer toy_layer toy_layer toy_layer 3)
                   (take 5 toy_calls) = Inr (toy_run 5)"
    using run_Inr_toy_run[of 5] by (simp add: toy_Recurrent_def)
  have c1: "deterministic ((toy_Recurrent 3)\<lparr>deterministic := True\<rparr>)" by simp
  have c2: "feedbackOutputParameter ((toy_Recurrent 3)\<lparr>deterministic := True\<rparr>) = []"
    by code_simp
  have "\<not> isl (run toy ((toy_Recurrent 3)\<lparr>deterministic := True\<rparr>) (take 3 toy_calls))"
    by code_simp
  then have c3: "run toy ((toy_Recurrent 3)\<lparr>deterministic := True\<rparr>) (take 3 toy_calls)
                   = Inr toy_inference"
    by (simp add: toy_inference_def)
  have "\<not> isl (Gradient toy (scalar 1) (scalar 7) empty_mat (toy_run 8))" by code_simp
  then have d1: "Gradient toy (scalar 1) (scalar 7) empty_mat (toy_run 8) = Inr toy_g3"
    by (simp add: toy_g3_def)
  have d2: "gradientStep (toy_run 8) + 1 = rho (toy_run 8)" by code_simp
  have d3: "length (feedbackOutputParameter (toy_run 8)) = 3" by code_simp
  have u: "unat (3::size_t) = 3" by simp
  from feedbackOutputParameter_history[of 3 "take 2 toy_calls" 2 0 0 toy toy_layer toy_layer
      toy_layer toy_layer "toy_run 2" "(toy_Recurrent 3)\<lparr>deterministic := True\<rparr>"
      "take 3 toy_calls" toy_inference "scalar 1" "scalar 7" empty_mat "toy_run 8" toy_g3]
    h1 a2 a3 c1 c2 c3 d1 d2
  have r1: "length (feedbackOutputParameter (toy_run 2)) = 2 \<and>
            unat (forwardStep (toy_run 2)) = 2 \<and>
            feedbackOutputParameter toy_inference = [] \<and>
            feedbackOutputParameter toy_g3 = [] \<and> gradientStep toy_g3 = 0"
    by (simp add: u)
  from feedbackOutputParameter_history[of 3 "take 5 toy_calls" 3 2 0 toy toy_layer toy_layer
      toy_layer toy_layer "toy_run 5"] h1 b2 b3
  have r2: "length (feedbackOutputParameter (toy_run 5)) = 3 \<and>
            unat (forwardStep (toy_run 5)) = 0"
    by (simp add: u)
  from h1 a2 a3 b2 b3 c1 c2 c3 d1 d2 d3 r1 r2 show ?thesis by blast
qed

lemma Gradient_returns:
  "gradientStep st < rho st - 1 \<Longrightarrow>
   unat (feedback_index st) < length (feedbackOutputParameter st) \<Longrightarrow>
   \<exists>st'. Gradient V input err gradient st = Inr st'"
  by (simp add: Gradient_def Gradient_modules_def Let_def)

text \<open>
  C10. From a freshly constructed object with \<open>rho = R \<ge> 2\<close>, after \<open>R\<close> Forward
  calls, \<open>R\<close> Backward calls and any number of Gradient calls of the pattern, a
  Gradient call that takes the branch \<open>gradientStep < rho - 1\<close> finds \<open>R\<close> elements
  in the history; the index it reads is \<open>R - 2 - gradientStep\<close>, at most
  \<open>R - 2\<close> and inside the history, and the call returns.
\<close>

theorem feedback_index_in_bounds:
  assumes "2 \<le> unat r" and "follows (unat r) (0, 0, 0) cs = Some (unat r, unat r, g)"
      and "run V (Recurrent_ctor V a1 a2 a3 a4 r) cs = Inr st"
      and "gradientStep st < rho st - 1"
  shows "length (feedbackOutputParameter st) = unat r \<and>
         unat (feedback_index st) = unat r - 2 - unat (gradientStep st) \<and>
         unat (feedback_index st) \<le> unat r - 2 \<and>
         unat (feedback_index st) < length (feedbackOutputParameter st) \<and>
         (\<exists>st'. Gradient V input err gradient st = Inr st')"
proof -
  from assms(1) have r: "r \<noteq> 0" by auto
  from pattern_reachable[OF r assms(2,3)]
  have rho: "unat (rho st) = unat r" and len: "length (feedbackOutputParameter st) = unat r"
    by (simp_all add: pattern_inv_def)
  from rho assms(1) have "0 < unat (rho st)" by simp
  then have "rho st \<noteq> 0" by (simp add: unat_gt_0)
  then have "unat (rho st - 1) = unat (rho st) - 1" by (rule unat_minus_one)
  with assms(4) rho have gs: "unat (gradientStep st) < unat r - 1"
    by (simp add: word_less_nat_alt)
  have "unat r < 2 ^ 64" using unsigned_less[of r] by simp
  with len have small: "length (feedbackOutputParameter st) < 2 ^ 64" by simp
  from gs len have "unat (gradientStep st) + 2 \<le> length (feedbackOutputParameter st)" by simp
  from feedback_index_nat[OF this small] len
  have idx: "unat (feedback_index st) = unat r - 2 - unat (gradientStep st)" by simp
  with assms(1) len have inb: "unat (feedback_index st) < length (feedbackOutputParameter st)"
    by simp
  from Gradient_returns[OF assms(4) inb]
  have "\<exists>st'. Gradient V input err gradient st = Inr st'" .
  with len idx inb show ?thesis by simp
qed


theorem feedback_index_in_bounds_witness:
  "2 \<le> unat (3::size_t) \<and>
   follows (unat (3::size_t)) (0, 0, 0) (take 6 toy_calls)
     = Some (unat (3::size_t), unat (3::size_t), 0) \<and>
   run toy (Recurrent_ctor toy toy_layer toy_layer toy_layer toy_layer 3) (take 6 toy_calls)
     = Inr (toy_run 6) \<and>
   gradientStep (toy_run 6) < rho (toy_run 6) - 1 \<and>
   length (feedbackOutputParameter (toy_run 6)) = 3 \<and>
   unat (feedback_index (toy_run 6)) = 1 \<and>
   unat (feedback_index (toy_run 6)) < length (feedbackOutputParameter (toy_run 6)) \<and>
   (\<exists>st'. Gradient toy (scalar 3) (scalar 5) empty_mat (toy_run 6) = Inr st')"
proof -
  have h1: "2 \<le> unat (3::size_t)" by simp
  have h2: "follows (unat (3::size_t)) (0, 0, 0) (take 6 toy_calls)
              = Some (unat (3::size_t), unat (3::size_t), 0)" by code_simp
  have "\<not> isl (run toy (toy_Recurrent 3) (take 6 toy_calls))" by code_simp
  then have h3: "run toy (Recurrent_ctor toy toy_layer toy_layer toy_layer toy_layer 3)
                   (take 6 toy_calls) = Inr (toy_run 6)"
    using run_Inr_toy_run[of 6] by (simp add: toy_Recurrent_def)
  have h4: "gradientStep (toy_run 6) < rho (toy_run 6) - 1" by code_simp
  have g: "unat (gradientStep (toy_run 6)) = 0" by code_simp
  from feedback_index_in_bounds[OF h1 h2 h3 h4, of "scalar 3" "scalar 5" empty_mat] g
  have "length (feedbackOutputParameter (toy_run 6)) = 3 \<and>
        unat (feedback_index (toy_run 6)) = 1 \<and>
        unat (feedback_index (toy_run 6)) < length (feedbackOutputParameter (toy_run 6)) \<and>
        (\<exists>st'. Gradient toy (scalar 3) (scalar 5) empty_mat (toy_run 6) = Inr st')"
    by simp
  with h1 h2 h3 h4 show ?thesis by blast
qed

end
